theory Spec2Isabelle
  imports Complex_Main "HOL-Library.Monad_Syntax"
begin

section \<open>Python values used by the route editor\<close>

text \<open>
  A Python \<^verbatim>\<open>float\<close> is an IEEE-754 double: a finite number, one of the two
  infinities, or NaN. The finite doubles are real numbers, so a finite value is kept as
  the real it denotes; comparisons between floats are then exact. What the arithmetic
  operations and the \<^verbatim>\<open>math\<close> functions return (rounding, overflow) is not fixed here:
  see \<open>pymath\<close> below.
\<close>

datatype pyfloat = Fin real | PInf | NInf | NaN

text \<open>Python's \<^verbatim>\<open>a < b\<close> and \<^verbatim>\<open>a <= b\<close> on floats: every comparison with NaN is false.\<close>

fun float_lt :: "pyfloat \<Rightarrow> pyfloat \<Rightarrow> bool" where
  "float_lt (Fin a) (Fin b) = (a < b)"
| "float_lt (Fin a) PInf = True"
| "float_lt NInf (Fin b) = True"
| "float_lt NInf PInf = True"
| "float_lt _ _ = False"

fun float_le :: "pyfloat \<Rightarrow> pyfloat \<Rightarrow> bool" where
  "float_le NaN _ = False"
| "float_le _ NaN = False"
| "float_le a b = (\<not> float_lt b a)"

text \<open>
  \<^verbatim>\<open>x or d\<close> for an optional float \<open>x\<close>: Python takes \<open>d\<close> when \<open>x\<close> is falsy, and the
  falsy values of this type are \<^verbatim>\<open>None\<close> and zero.
\<close>

definition py_or :: "pyfloat option \<Rightarrow> pyfloat \<Rightarrow> pyfloat" where
  "py_or x d = (case x of None \<Rightarrow> d | Some v \<Rightarrow> if v = Fin 0 then d else v)"

text \<open>The exceptions that leave the editor's methods.\<close>

datatype py_error = IndexError | ValueError | OverflowError

text \<open>\<^verbatim>\<open>xs[i]\<close> for \<open>i \<ge> 0\<close> and \<^verbatim>\<open>xs[-1]\<close>: out of range they raise.\<close>

definition py_index :: "'a list \<Rightarrow> nat \<Rightarrow> py_error + 'a" where
  "py_index xs i = (if i < length xs then Inr (xs ! i) else Inl IndexError)"

definition py_index_last :: "'a list \<Rightarrow> py_error + 'a" where
  "py_index_last xs = (case xs of [] \<Rightarrow> Inl IndexError | _ \<Rightarrow> Inr (last xs))"

text \<open>
  The float arithmetic and the functions of Python's \<^verbatim>\<open>math\<close> module that
  \<^verbatim>\<open>haversine_distance\<close> calls. They are parameters of the model, so every theorem below
  holds for whatever a Python runtime computes, rounding included. \<^verbatim>\<open>math.sin\<close>,
  \<^verbatim>\<open>math.cos\<close> and \<^verbatim>\<open>math.sqrt\<close> can raise \<^verbatim>\<open>ValueError\<close> (an infinite argument,
  a negative radicand): \<open>None\<close> is that exception.
\<close>

record pymath =
  float_add :: "pyfloat \<Rightarrow> pyfloat \<Rightarrow> pyfloat"
  float_sub :: "pyfloat \<Rightarrow> pyfloat \<Rightarrow> pyfloat"
  float_mul :: "pyfloat \<Rightarrow> pyfloat \<Rightarrow> pyfloat"
  float_div :: "pyfloat \<Rightarrow> pyfloat \<Rightarrow> pyfloat"
  math_radians :: "pyfloat \<Rightarrow> pyfloat"
  math_sin :: "pyfloat \<Rightarrow> pyfloat option"
  math_cos :: "pyfloat \<Rightarrow> pyfloat option"
  math_sqrt :: "pyfloat \<Rightarrow> pyfloat option"
  math_atan2 :: "pyfloat \<Rightarrow> pyfloat \<Rightarrow> pyfloat"

text \<open>
  Timestamps are \<^verbatim>\<open>datetime\<close> values, which count whole microseconds (here: since
  1970-01-01); a \<^verbatim>\<open>timedelta\<close> is a number of microseconds. The calendar range of
  \<^verbatim>\<open>datetime\<close> (years 1 to 9999) is modelled where a value of the caller enters the
  arithmetic, the lookback of \<^verbatim>\<open>get_user_routes\<close>; the rows of the table and the
  timestamps made from them by adding 30 or 5 seconds are taken to lie inside it.
\<close>

type_synonym timestamp = int
type_synonym date = int

definition timedelta_seconds :: "int \<Rightarrow> int" where
  "timedelta_seconds s = s * 1000000"

definition timedelta_days :: "int \<Rightarrow> int" where
  "timedelta_days d = d * 86400000000"

text \<open>
  \<^verbatim>\<open>datetime.min\<close> (0001-01-01 00:00:00) and \<^verbatim>\<open>datetime.max\<close>
  (9999-12-31 23:59:59.999999) in microseconds since 1970-01-01, and the largest number
  of days a \<^verbatim>\<open>timedelta\<close> holds.
\<close>

definition datetime_min :: timestamp where
  "datetime_min = - 62135596800000000"

definition datetime_max :: timestamp where
  "datetime_max = 253402300799999999"

definition timedelta_max_days :: int where
  "timedelta_max_days = 999999999"

text \<open>
  \<^verbatim>\<open>now - timedelta(days=days_back)\<close>: the \<^verbatim>\<open>timedelta\<close> raises
  \<^verbatim>\<open>OverflowError\<close> when the number of days is beyond its range, the subtraction when
  the result is outside the range of \<^verbatim>\<open>datetime\<close>.
\<close>

definition datetime_minus_days :: "timestamp \<Rightarrow> int \<Rightarrow> py_error + timestamp" where
  "datetime_minus_days now days_back =
     (if \<bar>days_back\<bar> > timedelta_max_days then Inl OverflowError
      else let c = now - timedelta_days days_back
           in if c < datetime_min \<or> datetime_max < c then Inl OverflowError else Inr c)"

text \<open>
  \<^verbatim>\<open>timedelta / int\<close> is \<^verbatim>\<open>_divide_and_round\<close> of the microseconds: the nearest
  integer, the even one at a tie (\<^verbatim>\<open>divmod\<close> is floor division, as \<open>div\<close> and \<open>mod\<close>
  on \<open>int\<close> are).
\<close>

definition divide_and_round :: "int \<Rightarrow> int \<Rightarrow> int" where
  "divide_and_round a b =
     (let q = a div b; r = 2 * (a mod b);
          greater_than_half = (if b > 0 then r > b else r < b)
      in if greater_than_half \<or> (r = b \<and> q mod 2 = 1) then q + 1 else q)"

section \<open>The store\<close>

text \<open>
  A row of the \<^verbatim>\<open>points\<close> table, with the columns the editor reads and writes, and the
  table itself with the sequence that assigns ids. \<^verbatim>\<open>DATE(recorded_at)\<close> is the day
  number of the timestamp. The store is taken to be reachable: a failed connection or a
  failed query is not modelled, except for an \<^verbatim>\<open>INSERT\<close> the table refuses (see
  \<open>add_point_to_route\<close>).
\<close>

record point =
  point_id :: int
  user_id :: int
  latitude :: "pyfloat option"
  longitude :: "pyfloat option"
  recorded_at :: timestamp
  accuracy :: "pyfloat option"
  altitude :: "pyfloat option"
  speed :: "pyfloat option"
  battery :: "pyfloat option"
  created_at :: timestamp
  updated_at :: timestamp

record store =
  points_tbl :: "point list"
  next_id :: int

definition sql_date :: "timestamp \<Rightarrow> date" where
  "sql_date t = t div 86400000000"

text \<open>
  The order PostgreSQL gives float columns, used by \<^verbatim>\<open>MIN\<close> and \<^verbatim>\<open>MAX\<close>: NaN is
  above every other value.
\<close>

fun sql_lt :: "pyfloat \<Rightarrow> pyfloat \<Rightarrow> bool" where
  "sql_lt NaN _ = False"
| "sql_lt _ NaN = True"
| "sql_lt a b = float_lt a b"

definition sql_min :: "pyfloat \<Rightarrow> pyfloat \<Rightarrow> pyfloat" where
  "sql_min a b = (if sql_lt b a then b else a)"

definition sql_max :: "pyfloat \<Rightarrow> pyfloat \<Rightarrow> pyfloat" where
  "sql_max a b = (if sql_lt a b then b else a)"

section \<open>Route queries\<close>

record route_summary =
  route_date :: date
  point_count :: nat
  start_time :: timestamp
  end_time :: timestamp
  min_lat :: pyfloat
  max_lat :: pyfloat
  min_lon :: pyfloat
  max_lon :: pyfloat

text \<open>The rows of one user inside the lookback window that have both coordinates.\<close>

definition window_rows :: "store \<Rightarrow> int \<Rightarrow> timestamp \<Rightarrow> point list" where
  "window_rows st uid cutoff_date =
     filter (\<lambda>p. user_id p = uid \<and> recorded_at p \<ge> cutoff_date
                 \<and> latitude p \<noteq> None \<and> longitude p \<noteq> None) (points_tbl st)"

text \<open>The aggregates of one non-empty group of rows.\<close>

definition summarize :: "date \<Rightarrow> point list \<Rightarrow> route_summary" where
  "summarize d g =
     \<lparr> route_date = d,
       point_count = length g,
       start_time = fold min (map recorded_at (tl g)) (recorded_at (hd g)),
       end_time = fold max (map recorded_at (tl g)) (recorded_at (hd g)),
       min_lat = fold sql_min (map (the \<circ> latitude) (tl g)) (the (latitude (hd g))),
       max_lat = fold sql_max (map (the \<circ> latitude) (tl g)) (the (latitude (hd g))),
       min_lon = fold sql_min (map (the \<circ> longitude) (tl g)) (the (longitude (hd g))),
       max_lon = fold sql_max (map (the \<circ> longitude) (tl g)) (the (longitude (hd g))) \<rparr>"

text \<open>The group of one date under \<^verbatim>\<open>GROUP BY DATE(recorded_at)\<close>.\<close>

definition date_group :: "store \<Rightarrow> int \<Rightarrow> timestamp \<Rightarrow> date \<Rightarrow> point list" where
  "date_group st uid cutoff_date d =
     filter (\<lambda>p. sql_date (recorded_at p) = d) (window_rows st uid cutoff_date)"

text \<open>
  \<^verbatim>\<open>get_user_routes\<close>: group the window's rows by date, keep the groups of at least
  five rows, newest date first. \<open>now\<close> is \<^verbatim>\<open>datetime.now()\<close>. An exception of the
  cutoff's computation leaves the method.
\<close>

definition get_user_routes ::
  "store \<Rightarrow> timestamp \<Rightarrow> int \<Rightarrow> int \<Rightarrow> py_error + route_summary list" where
  "get_user_routes st now uid days_back =
     (case datetime_minus_days now days_back of
        Inl e \<Rightarrow> Inl e
      | Inr cutoff_date \<Rightarrow>
          (let dates = rev (sort (remdups (map (sql_date \<circ> recorded_at)
                                             (window_rows st uid cutoff_date))))
           in Inr (map (\<lambda>d. summarize d (date_group st uid cutoff_date d))
                    (filter (\<lambda>d. length (date_group st uid cutoff_date d) \<ge> 5) dates))))"

text \<open>
  A row as \<^verbatim>\<open>get_route_points\<close> returns it: the selected columns, both coordinates
  present. The timestamp is turned into an ISO string there and parsed back by
  \<^verbatim>\<open>find_insertion_timestamp\<close>; the round trip returns the same instant, so the row
  keeps the timestamp. The route date, a string in the source, is the day it names.
  \<^verbatim>\<open>ORDER BY recorded_at ASC\<close> leaves the order of rows with equal timestamps to
  the store; here they keep the order of the table.
\<close>

record route_point =
  pt_id :: int
  pt_latitude :: pyfloat
  pt_longitude :: pyfloat
  pt_recorded_at :: timestamp
  pt_accuracy :: "pyfloat option"
  pt_altitude :: "pyfloat option"
  pt_speed :: "pyfloat option"
  pt_battery :: "pyfloat option"

definition select_columns :: "point \<Rightarrow> route_point" where
  "select_columns p =
     \<lparr> pt_id = point_id p, pt_latitude = the (latitude p), pt_longitude = the (longitude p),
       pt_recorded_at = recorded_at p, pt_accuracy = accuracy p, pt_altitude = altitude p,
       pt_speed = speed p, pt_battery = battery p \<rparr>"

definition get_route_points :: "store \<Rightarrow> int \<Rightarrow> date \<Rightarrow> route_point list" where
  "get_route_points st uid rdate =
     sort_key pt_recorded_at
       (map select_columns
          (filter (\<lambda>p. user_id p = uid \<and> sql_date (recorded_at p) = rdate
                      \<and> latitude p \<noteq> None \<and> longitude p \<noteq> None) (points_tbl st)))"

section \<open>The placement engine\<close>

definition haversine_distance ::
  "pymath \<Rightarrow> pyfloat \<Rightarrow> pyfloat \<Rightarrow> pyfloat \<Rightarrow> pyfloat \<Rightarrow> pyfloat option" where
  "haversine_distance M lat1 lon1 lat2 lon2 =
     (let R = Fin 6371000;
          lat1_rad = math_radians M lat1;
          lat2_rad = math_radians M lat2;
          delta_lat = math_radians M (float_sub M lat2 lat1);
          delta_lon = math_radians M (float_sub M lon2 lon1)
      in do {
        s1 \<leftarrow> math_sin M (float_div M delta_lat (Fin 2));
        s2 \<leftarrow> math_sin M (float_div M delta_lat (Fin 2));
        c1 \<leftarrow> math_cos M lat1_rad;
        c2 \<leftarrow> math_cos M lat2_rad;
        s3 \<leftarrow> math_sin M (float_div M delta_lon (Fin 2));
        s4 \<leftarrow> math_sin M (float_div M delta_lon (Fin 2));
        let a = float_add M (float_mul M s1 s2)
                  (float_mul M (float_mul M (float_mul M c1 c2) s3) s4);
        r1 \<leftarrow> math_sqrt M a;
        r2 \<leftarrow> math_sqrt M (float_sub M (Fin 1) a);
        let c = float_mul M (Fin 2) (math_atan2 M r1 r2);
        Some (float_mul M R c)
      })"

text \<open>The body of the loop up to the comparison: the penalty of the gap between two rows.\<close>

definition distance_penalty ::
  "pymath \<Rightarrow> pyfloat \<Rightarrow> pyfloat \<Rightarrow> route_point \<Rightarrow> route_point \<Rightarrow> pyfloat option" where
  "distance_penalty M lat lon point1 point2 =
     do {
       dist1 \<leftarrow> haversine_distance M lat lon (pt_latitude point1) (pt_longitude point1);
       dist2 \<leftarrow> haversine_distance M lat lon (pt_latitude point2) (pt_longitude point2);
       original_dist \<leftarrow> haversine_distance M (pt_latitude point1) (pt_longitude point1)
                          (pt_latitude point2) (pt_longitude point2);
       Some (float_sub M (float_add M dist1 dist2) original_dist)
     }"

text \<open>
  The loop \<^verbatim>\<open>for i in range(len(points) - 1)\<close>, on the rows from index \<open>i\<close> on, with
  the two variables it updates. \<open>None\<close>: a distance raised \<^verbatim>\<open>ValueError\<close>.
\<close>

fun scan_gaps ::
  "pymath \<Rightarrow> pyfloat \<Rightarrow> pyfloat \<Rightarrow> route_point list \<Rightarrow> nat \<Rightarrow> nat \<Rightarrow> pyfloat \<Rightarrow> nat option" where
  "scan_gaps M lat lon (point1 # point2 # rest) i best_position min_distance_sum =
     (case distance_penalty M lat lon point1 point2 of
        None \<Rightarrow> None
      | Some penalty \<Rightarrow>
          if float_lt penalty min_distance_sum
          then scan_gaps M lat lon (point2 # rest) (i + 1) i penalty
          else scan_gaps M lat lon (point2 # rest) (i + 1) best_position min_distance_sum)"
| "scan_gaps M lat lon _ i best_position min_distance_sum = Some best_position"

text \<open>
  The loop as \<^verbatim>\<open>find_insertion_timestamp\<close> starts it: \<^verbatim>\<open>best_position = 0\<close> and
  \<^verbatim>\<open>min_distance_sum = float('inf')\<close>.
\<close>

definition find_best_position ::
  "pymath \<Rightarrow> pyfloat \<Rightarrow> pyfloat \<Rightarrow> route_point list \<Rightarrow> nat option" where
  "find_best_position M lat lon points = scan_gaps M lat lon points 0 0 PInf"

definition find_insertion_timestamp ::
  "pymath \<Rightarrow> store \<Rightarrow> int \<Rightarrow> date \<Rightarrow> pyfloat \<Rightarrow> pyfloat \<Rightarrow> py_error + timestamp" where
  "find_insertion_timestamp M st uid rdate lat lon =
     (let points = get_route_points st uid rdate in
      if length points < 2 then
        (case py_index_last points of
           Inl e \<Rightarrow> Inl e
         | Inr p \<Rightarrow> Inr (pt_recorded_at p + timedelta_seconds 30))
      else
        (case find_best_position M lat lon points of
           None \<Rightarrow> Inl ValueError
         | Some best_position \<Rightarrow>
             (case py_index points best_position of
                Inl e \<Rightarrow> Inl e
              | Inr point1 \<Rightarrow>
                  (case py_index points (best_position + 1) of
                     Inl e \<Rightarrow> Inl e
                   | Inr point2 \<Rightarrow>
                       (let time1 = pt_recorded_at point1;
                            time2 = pt_recorded_at point2;
                            time_diff = time2 - time1
                        in Inr (time1 + divide_and_round time_diff 2))))))"

text \<open>
  The result of \<^verbatim>\<open>add_point_to_route\<close>: the dictionary with \<^verbatim>\<open>success: True\<close>, the new
  id and the timestamp, or the one with \<^verbatim>\<open>success: False\<close> and the store's error text.
\<close>

datatype add_result = AddOk int timestamp | AddFailed string

text \<open>
  \<^verbatim>\<open>add_point_to_route\<close>. The constraints of the table are not part of the repository:
  \<open>rejects rows r\<close> is \<open>Some msg\<close> when the store refuses to insert \<open>r\<close> beside
  \<open>rows\<close> with the error \<open>msg\<close> (the transaction is rolled back), \<open>None\<close> when it accepts.
  \<open>now\<close> is the store's \<^verbatim>\<open>NOW()\<close>. An exception of \<^verbatim>\<open>find_insertion_timestamp\<close>
  is raised before the \<^verbatim>\<open>try\<close> block and leaves the method.
\<close>

definition add_point_to_route ::
  "pymath \<Rightarrow> (point list \<Rightarrow> point \<Rightarrow> string option) \<Rightarrow> timestamp \<Rightarrow> store \<Rightarrow> int \<Rightarrow> date \<Rightarrow>
   pyfloat \<Rightarrow> pyfloat \<Rightarrow> pyfloat option \<Rightarrow> pyfloat option \<Rightarrow> (py_error + add_result) \<times> store" where
  "add_point_to_route M rejects now st uid rdate lat lon alt acc =
     (case find_insertion_timestamp M st uid rdate lat lon of
        Inl e \<Rightarrow> (Inl e, st)
      | Inr ts0 \<Rightarrow>
          (let ts = (if \<exists>p \<in> set (points_tbl st). user_id p = uid \<and> recorded_at p = ts0
                     then ts0 + timedelta_seconds 5 else ts0);
               row = \<lparr> point_id = next_id st, user_id = uid,
                       latitude = Some lat, longitude = Some lon, recorded_at = ts,
                       accuracy = Some (py_or acc (Fin 20)), altitude = alt,
                       speed = None, battery = None,
                       created_at = now, updated_at = now \<rparr>
           in case rejects (points_tbl st) row of
                Some msg \<Rightarrow> (Inr (AddFailed msg), st)
              | None \<Rightarrow>
                  (Inr (AddOk (next_id st) ts),
                   st\<lparr> points_tbl := points_tbl st @ [row], next_id := next_id st + 1 \<rparr>)))"

text \<open>
  \<^verbatim>\<open>delete_point\<close>: the \<^verbatim>\<open>DELETE ... RETURNING id\<close> removes the rows with the given id
  and user id; the result says whether it returned a row.
\<close>

datatype delete_result = DeleteOk string | DeleteFailed string

definition delete_point :: "store \<Rightarrow> int \<Rightarrow> int \<Rightarrow> delete_result \<times> store" where
  "delete_point st uid pid =
     (let deleted_point = filter (\<lambda>p. point_id p = pid \<and> user_id p = uid) (points_tbl st) in
      if deleted_point \<noteq> [] then
        (DeleteOk ''Point deleted successfully'',
         st\<lparr> points_tbl := filter (\<lambda>p. \<not> (point_id p = pid \<and> user_id p = uid)) (points_tbl st) \<rparr>)
      else (DeleteFailed ''Point not found or not authorized'', st))"

section \<open>An arithmetic without rounding\<close>

text \<open>
  One instance of \<open>pymath\<close>, used to evaluate the model at concrete routes: the
  operations are those of the real numbers on finite values. An infinite or NaN operand
  of an arithmetic operation gives NaN here; the sine and cosine of an infinity and the
  square root of a negative number raise.
\<close>

definition atan2_real :: "real \<Rightarrow> real \<Rightarrow> real" where
  "atan2_real y x =
     (if 0 < x then arctan (y / x)
      else if x < 0 \<and> 0 \<le> y then arctan (y / x) + pi
      else if x < 0 then arctan (y / x) - pi
      else if 0 < y then pi / 2
      else if y < 0 then - pi / 2
      else 0)"

fun lift1 :: "(real \<Rightarrow> real) \<Rightarrow> pyfloat \<Rightarrow> pyfloat" where
  "lift1 f (Fin a) = Fin (f a)"
| "lift1 f _ = NaN"

fun lift2 :: "(real \<Rightarrow> real \<Rightarrow> real) \<Rightarrow> pyfloat \<Rightarrow> pyfloat \<Rightarrow> pyfloat" where
  "lift2 f (Fin a) (Fin b) = Fin (f a b)"
| "lift2 f _ _ = NaN"

fun trig :: "(real \<Rightarrow> real) \<Rightarrow> pyfloat \<Rightarrow> pyfloat option" where
  "trig f (Fin a) = Some (Fin (f a))"
| "trig f NaN = Some NaN"
| "trig f _ = None"

fun exact_sqrt :: "pyfloat \<Rightarrow> pyfloat option" where
  "exact_sqrt (Fin a) = (if a < 0 then None else Some (Fin (sqrt a)))"
| "exact_sqrt PInf = Some PInf"
| "exact_sqrt NInf = None"
| "exact_sqrt NaN = Some NaN"

definition exact_math :: pymath where
  "exact_math =
     \<lparr> float_add = lift2 (+), float_sub = lift2 (-), float_mul = lift2 (*),
       float_div = lift2 (/), math_radians = lift1 (\<lambda>x. x * pi / 180),
       math_sin = trig sin, math_cos = trig cos, math_sqrt = exact_sqrt,
       math_atan2 = lift2 atan2_real \<rparr>"

text \<open>
  A second instance, in which a sum comes out one part in \<open>2^52\<close> too large, as the
  rounding of a double sum can make it. Python computes \<open>a > 1\<close> for the points (8, 9) and
  (-8, -171), which lie opposite each other on the sphere; with this instance the model
  does too.
\<close>

definition round_up_math :: pymath where
  "round_up_math = exact_math\<lparr> float_add := lift2 (\<lambda>x y. (x + y) * (1 + 1 / 2 ^ 52)) \<rparr>"

section \<open>Example routes\<close>

text \<open>
  Rows as a device records them, and the routes the theorems below are evaluated on: the
  straight-line route at (0,0), (0,1), (0,2) one minute apart, and a route whose two
  points are one microsecond apart.
\<close>

definition device_point :: "int \<Rightarrow> int \<Rightarrow> real \<Rightarrow> real \<Rightarrow> timestamp \<Rightarrow> point" where
  "device_point pid uid la lo t =
     \<lparr> point_id = pid, user_id = uid, latitude = Some (Fin la), longitude = Some (Fin lo),
       recorded_at = t, accuracy = None, altitude = None, speed = None, battery = None,
       created_at = t, updated_at = t \<rparr>"

definition line_route :: store where
  "line_route =
     \<lparr> points_tbl = [device_point 1 1 0 0 43200000000, device_point 2 1 0 1 43260000000,
                     device_point 3 1 0 2 43320000000],
       next_id = 4 \<rparr>"

definition route_row :: "int \<Rightarrow> real \<Rightarrow> real \<Rightarrow> timestamp \<Rightarrow> route_point" where
  "route_row pid la lo t =
     \<lparr> pt_id = pid, pt_latitude = Fin la, pt_longitude = Fin lo, pt_recorded_at = t,
       pt_accuracy = None, pt_altitude = None, pt_speed = None, pt_battery = None \<rparr>"

definition tight_route :: store where
  "tight_route =
     \<lparr> points_tbl = [device_point 1 1 0 0 43200000000, device_point 2 1 0 1 43200000001],
       next_id = 3 \<rparr>"

text \<open>
  A row without coordinates, the route of a single point at 09:00:00 (user 9), and a
  route of two points ten seconds apart whose user also has a row without coordinates
  at the midpoint between them.
\<close>

definition null_point :: "int \<Rightarrow> int \<Rightarrow> timestamp \<Rightarrow> point" where
  "null_point pid uid t =
     \<lparr> point_id = pid, user_id = uid, latitude = None, longitude = None,
       recorded_at = t, accuracy = None, altitude = None, speed = None, battery = None,
       created_at = t, updated_at = t \<rparr>"

definition single_route :: store where
  "single_route = \<lparr> points_tbl = [device_point 1 9 0 0 32400000000], next_id = 2 \<rparr>"


text \<open>A table with rows of two users.\<close>

definition shared_store :: store where
  "shared_store =
     \<lparr> points_tbl = [device_point 1 1 0 0 43200000000, device_point 2 1 0 1 43260000000,
                     device_point 3 2 0 2 43320000000],
       next_id = 4 \<rparr>"

text \<open>
  Three days of user 1: four points with coordinates and one without on day 0 (and a
  point of user 2), five points on day 1 and five on day 2.
\<close>

definition week_store :: store where
  "week_store =
     \<lparr> points_tbl =
         [device_point 1 1 0 0 1000, device_point 2 1 0 1 2000, device_point 3 1 0 2 3000,
          device_point 4 1 0 3 4000, null_point 5 1 5000, device_point 6 2 0 0 6000,
          device_point 7 1 1 0 86400001000, device_point 8 1 1 1 86400002000,
          device_point 9 1 1 2 86400003000, device_point 10 1 1 3 86400004000,
          device_point 11 1 1 4 86400005000,
          device_point 12 1 2 0 172800001000, device_point 13 1 2 1 172800002000,
          device_point 14 1 2 2 172800003000, device_point 15 1 2 3 172800004000,
          device_point 16 1 2 4 172800005000],
       next_id = 17 \<rparr>"

text \<open>A route of two points that lie opposite each other on the sphere.\<close>

definition antipodal_route :: store where
  "antipodal_route =
     \<lparr> points_tbl = [device_point 1 1 8 9 43200000000,
                     device_point 2 1 (- 8) (- 171) 43260000000],
       next_id = 3 \<rparr>"

section \<open>The gap selection loop\<close>

text \<open>The float comparisons are a strict order and its reflexive closure on the values that are not NaN.\<close>

lemma float_lt_irrefl: "\<not> float_lt a a"
  by (cases a) auto

lemma float_lt_trans: "float_lt a b \<Longrightarrow> float_lt b c \<Longrightarrow> float_lt a c"
  by (cases a; cases b; cases c) auto

lemma float_lt_not_le: "float_lt a b \<Longrightarrow> \<not> float_le b a"
  by (cases a; cases b) auto

lemma float_lt_asym: "float_lt a b \<Longrightarrow> \<not> float_lt b a"
  by (cases a; cases b) auto

lemma float_le_lt_trans: "float_le a b \<Longrightarrow> float_lt b c \<Longrightarrow> float_lt a c"
  by (cases a; cases b; cases c) auto

lemma float_lt_PInf: "\<not> float_lt p PInf \<Longrightarrow> \<not> float_lt q PInf \<Longrightarrow> \<not> float_lt q p"
  by (cases p; cases q) auto

lemma scan_gaps_result:
  "scan_gaps M lat lon ps i best m = Some r \<Longrightarrow>
     (r = best \<and>
        (\<forall>j. Suc j < length ps \<longrightarrow>
           (\<exists>p. distance_penalty M lat lon (ps ! j) (ps ! Suc j) = Some p \<and> \<not> float_lt p m)))
     \<or> (\<exists>k pk. r = i + k \<and> Suc k < length ps
           \<and> distance_penalty M lat lon (ps ! k) (ps ! Suc k) = Some pk \<and> float_lt pk m
           \<and> (\<forall>j. Suc j < length ps \<longrightarrow>
                 (\<exists>p. distance_penalty M lat lon (ps ! j) (ps ! Suc j) = Some p
                      \<and> \<not> float_lt p pk \<and> (j < k \<longrightarrow> \<not> float_le p pk))))"
proof (induction M lat lon ps i best m rule: scan_gaps.induct)
  case (1 M lat lon point1 point2 rest i best_position min_distance_sum)
  let ?ps = "point1 # point2 # rest"
  let ?qs = "point2 # rest"
  from "1.prems" obtain pen where pen: "distance_penalty M lat lon point1 point2 = Some pen"
    by (auto split: option.splits)
  have shift: "\<And>j. distance_penalty M lat lon (?ps ! Suc j) (?ps ! Suc (Suc j))
       = distance_penalty M lat lon (?qs ! j) (?qs ! Suc j)" by simp
  show ?case
  proof (cases "float_lt pen min_distance_sum")
    case True
    with "1.prems" pen have rec: "scan_gaps M lat lon ?qs (i + 1) i pen = Some r" by simp
    from "1.IH"(1)[OF pen True rec]
    show ?thesis
    proof (elim disjE conjE exE)
      assume r: "r = i" and all: "\<forall>j. Suc j < length ?qs \<longrightarrow>
           (\<exists>p. distance_penalty M lat lon (?qs ! j) (?qs ! Suc j) = Some p \<and> \<not> float_lt p pen)"
      have "\<forall>j. Suc j < length ?ps \<longrightarrow>
                 (\<exists>p. distance_penalty M lat lon (?ps ! j) (?ps ! Suc j) = Some p
                      \<and> \<not> float_lt p pen \<and> (j < 0 \<longrightarrow> \<not> float_le p pen))"
      proof (intro allI impI)
        fix j assume j: "Suc j < length ?ps"
        show "\<exists>p. distance_penalty M lat lon (?ps ! j) (?ps ! Suc j) = Some p
                      \<and> \<not> float_lt p pen \<and> (j < 0 \<longrightarrow> \<not> float_le p pen)"
        proof (cases j)
          case 0 then show ?thesis using pen float_lt_irrefl by simp
        next
          case (Suc j')
          with j all have "\<exists>p. distance_penalty M lat lon (?qs ! j') (?qs ! Suc j') = Some p \<and> \<not> float_lt p pen"
            by simp
          then show ?thesis using Suc by simp
        qed
      qed
      then show ?thesis using r pen True
        by (intro disjI2 exI[of _ 0] exI[of _ pen]) simp
    next
      fix k pk
      assume r: "r = i + 1 + k" and k: "Suc k < length ?qs"
        and pk: "distance_penalty M lat lon (?qs ! k) (?qs ! Suc k) = Some pk"
        and lt: "float_lt pk pen"
        and all: "\<forall>j. Suc j < length ?qs \<longrightarrow>
                 (\<exists>p. distance_penalty M lat lon (?qs ! j) (?qs ! Suc j) = Some p
                      \<and> \<not> float_lt p pk \<and> (j < k \<longrightarrow> \<not> float_le p pk))"
      have "\<forall>j. Suc j < length ?ps \<longrightarrow>
                 (\<exists>p. distance_penalty M lat lon (?ps ! j) (?ps ! Suc j) = Some p
                      \<and> \<not> float_lt p pk \<and> (j < Suc k \<longrightarrow> \<not> float_le p pk))"
      proof (intro allI impI)
        fix j assume j: "Suc j < length ?ps"
        show "\<exists>p. distance_penalty M lat lon (?ps ! j) (?ps ! Suc j) = Some p
                      \<and> \<not> float_lt p pk \<and> (j < Suc k \<longrightarrow> \<not> float_le p pk)"
        proof (cases j)
          case 0 then show ?thesis using pen lt float_lt_asym float_lt_not_le by auto
        next
          case (Suc j')
          with j all have "\<exists>p. distance_penalty M lat lon (?qs ! j') (?qs ! Suc j') = Some p 
              \<and> \<not> float_lt p pk \<and> (j' < k \<longrightarrow> \<not> float_le p pk)"
            by simp
          then show ?thesis using Suc by simp
        qed
      qed
      moreover have "float_lt pk min_distance_sum" using lt True float_lt_trans by blast
      ultimately show ?thesis using r k pk
        by (intro disjI2 exI[of _ "Suc k"] exI[of _ pk]) simp
    qed
  next
    case False
    with "1.prems" pen have rec: "scan_gaps M lat lon ?qs (i + 1) best_position min_distance_sum = Some r" by simp
    from "1.IH"(2)[OF pen False rec]
    show ?thesis
    proof (elim disjE conjE exE)
      assume r: "r = best_position" and all: "\<forall>j. Suc j < length ?qs \<longrightarrow>
           (\<exists>p. distance_penalty M lat lon (?qs ! j) (?qs ! Suc j) = Some p \<and> \<not> float_lt p min_distance_sum)"
      have "\<forall>j. Suc j < length ?ps \<longrightarrow>
                 (\<exists>p. distance_penalty M lat lon (?ps ! j) (?ps ! Suc j) = Some p
                      \<and> \<not> float_lt p min_distance_sum)"
      proof (intro allI impI)
        fix j assume j: "Suc j < length ?ps"
        show "\<exists>p. distance_penalty M lat lon (?ps ! j) (?ps ! Suc j) = Some p
                      \<and> \<not> float_lt p min_distance_sum"
        proof (cases j)
          case 0 then show ?thesis using pen False by simp
        next
          case (Suc j')
          with j all have "\<exists>p. distance_penalty M lat lon (?qs ! j') (?qs ! Suc j') = Some p \<and> \<not> float_lt p min_distance_sum"
            by simp
          then show ?thesis using Suc by simp
        qed
      qed
      then show ?thesis using r by blast
    next
      fix k pk
      assume r: "r = i + 1 + k" and k: "Suc k < length ?qs"
        and pk: "distance_penalty M lat lon (?qs ! k) (?qs ! Suc k) = Some pk"
        and lt: "float_lt pk min_distance_sum"
        and all: "\<forall>j. Suc j < length ?qs \<longrightarrow>
                 (\<exists>p. distance_penalty M lat lon (?qs ! j) (?qs ! Suc j) = Some p
                      \<and> \<not> float_lt p pk \<and> (j < k \<longrightarrow> \<not> float_le p pk))"
      have "\<forall>j. Suc j < length ?ps \<longrightarrow>
                 (\<exists>p. distance_penalty M lat lon (?ps ! j) (?ps ! Suc j) = Some p
                      \<and> \<not> float_lt p pk \<and> (j < Suc k \<longrightarrow> \<not> float_le p pk))"
      proof (intro allI impI)
        fix j assume j: "Suc j < length ?ps"
        show "\<exists>p. distance_penalty M lat lon (?ps ! j) (?ps ! Suc j) = Some p
                      \<and> \<not> float_lt p pk \<and> (j < Suc k \<longrightarrow> \<not> float_le p pk)"
        proof (cases j)
          case 0 
          have "\<not> float_lt pen pk" using False lt float_lt_trans by blast
          moreover have "\<not> float_le pen pk" using False lt float_le_lt_trans by blast
          ultimately show ?thesis using 0 pen by simp
        next
          case (Suc j')
          with j all have "\<exists>p. distance_penalty M lat lon (?qs ! j') (?qs ! Suc j') = Some p 
              \<and> \<not> float_lt p pk \<and> (j' < k \<longrightarrow> \<not> float_le p pk)"
            by simp
          then show ?thesis using Suc by simp
        qed
      qed
      then show ?thesis using r k pk lt
        by (intro disjI2 exI[of _ "Suc k"] exI[of _ pk]) simp
    qed
  qed
qed simp_all

lemma ex_Suc_less_Cons:
  "(\<exists>j. Suc j < length (x # xs) \<and> P j) \<longleftrightarrow> (Suc 0 < length (x # xs) \<and> P 0) \<or> (\<exists>j. Suc j < length xs \<and> P (Suc j))"
proof
  assume "\<exists>j. Suc j < length (x # xs) \<and> P j"
  then obtain j where j: "Suc j < length (x # xs)" "P j" by blast
  show "(Suc 0 < length (x # xs) \<and> P 0) \<or> (\<exists>j. Suc j < length xs \<and> P (Suc j))"
  proof (cases j)
    case 0 with j show ?thesis by simp
  next
    case (Suc j') with j show ?thesis by auto
  qed
next
  assume "(Suc 0 < length (x # xs) \<and> P 0) \<or> (\<exists>j. Suc j < length xs \<and> P (Suc j))"
  then show "\<exists>j. Suc j < length (x # xs) \<and> P j" by auto
qed

lemma scan_gaps_None:
  "scan_gaps M lat lon ps i best m = None \<longleftrightarrow>
     (\<exists>j. Suc j < length ps \<and> distance_penalty M lat lon (ps ! j) (ps ! Suc j) = None)"
proof (induction M lat lon ps i best m rule: scan_gaps.induct)
  case (1 M lat lon point1 point2 rest i best_position min_distance_sum)
  show ?case
  proof (cases "distance_penalty M lat lon point1 point2")
    case None
    then show ?thesis by (subst ex_Suc_less_Cons) simp
  next
    case (Some pen)
    show ?thesis
    proof (cases "float_lt pen min_distance_sum")
      case True
      from "1.IH"(1)[OF Some True] Some True show ?thesis
        by (subst ex_Suc_less_Cons) simp
    next
      case False
      from "1.IH"(2)[OF Some False] Some False show ?thesis
        by (subst ex_Suc_less_Cons) simp
    qed
  qed
qed simp_all

lemma find_best_position_bound:
  "2 \<le> length points \<Longrightarrow> find_best_position M lat lon points = Some i \<Longrightarrow> Suc i < length points"
  using scan_gaps_result[of M lat lon points 0 0 PInf i]
  by (auto simp: find_best_position_def)

lemma float_lt_PInf_number: "float_lt p PInf \<Longrightarrow> p \<noteq> NaN"
  by (cases p) auto

lemma float_le_of_not_lt: "a \<noteq> NaN \<Longrightarrow> b \<noteq> NaN \<Longrightarrow> \<not> float_lt b a \<Longrightarrow> float_le a b"
  by (cases a; cases b) auto

lemma float_lt_of_not_le: "a \<noteq> NaN \<Longrightarrow> b \<noteq> NaN \<Longrightarrow> \<not> float_le b a \<Longrightarrow> float_lt a b"
  by (cases a; cases b) auto

lemma float_not_below_PInf: "p \<noteq> NaN \<Longrightarrow> \<not> float_lt p PInf \<Longrightarrow> p = PInf"
  by (cases p) auto

lemma find_best_position_cases:
  assumes "find_best_position M lat lon points = Some i" and "2 \<le> length points"
  shows "(i = 0 \<and> (\<forall>j. Suc j < length points \<longrightarrow>
            (\<exists>p. distance_penalty M lat lon (points ! j) (points ! Suc j) = Some p
                 \<and> \<not> float_lt p PInf)))
       \<or> (\<exists>pi. Suc i < length points
            \<and> distance_penalty M lat lon (points ! i) (points ! Suc i) = Some pi
            \<and> float_lt pi PInf
            \<and> (\<forall>j. Suc j < length points \<longrightarrow>
                  (\<exists>p. distance_penalty M lat lon (points ! j) (points ! Suc j) = Some p
                       \<and> \<not> float_lt p pi \<and> (j < i \<longrightarrow> \<not> float_le p pi))))"
  using scan_gaps_result[of M lat lon points 0 0 PInf i] assms(1)
  by (auto simp: find_best_position_def)

section \<open>Evaluating the model without rounding\<close>

lemma sin_times_sin_le_1: "sin (u::real) * sin u \<le> 1"
proof -
  have "(sin u)\<^sup>2 \<le> 1" using abs_sin_le_one[of u] by (simp add: abs_square_le_1)
  then show ?thesis by (simp add: power2_eq_square)
qed

lemma abs_sin_div_cos:
  assumes "\<bar>t\<bar> < pi / 2"
  shows "\<bar>sin t\<bar> / cos t = tan \<bar>t\<bar>"
proof (cases "0 \<le> t")
  case True
  then have "0 \<le> sin t" using assms by (intro sin_ge_zero) auto
  with True show ?thesis by (simp add: tan_def)
next
  case False
  then have "0 < sin (- t)" using assms by (intro sin_gt_zero) auto
  then have "sin t < 0" by simp
  with False show ?thesis by (simp add: tan_def)
qed

lemma arctan_abs_sin_cos:
  assumes "\<bar>t\<bar> < pi / 2"
  shows "atan2_real (sqrt (sin t * sin t)) (sqrt (1 - sin t * sin t)) = \<bar>t\<bar>"
proof -
  have c: "0 < cos t" using assms by (intro cos_gt_zero_pi) auto
  have "1 - sin t * sin t = cos t * cos t"
    using sin_cos_squared_add[of t] by (simp add: power2_eq_square algebra_simps)
  then have r2: "sqrt (1 - sin t * sin t) = cos t" using c by simp
  have r1: "sqrt (sin t * sin t) = \<bar>sin t\<bar>" by simp
  have "arctan (tan \<bar>t\<bar>) = \<bar>t\<bar>" using assms by (intro arctan_tan) auto
  then show ?thesis using c abs_sin_div_cos[OF assms] by (simp add: atan2_real_def r1 r2)
qed

lemma haversine_equator:
  assumes "\<bar>y - x\<bar> < 180"
  shows "haversine_distance exact_math (Fin 0) (Fin x) (Fin 0) (Fin y)
           = Some (Fin (6371000 * (2 * \<bar>(y - x) * pi / 180 / 2\<bar>)))"
proof -
  have "\<bar>(y - x) * pi / 180 / 2\<bar> = \<bar>y - x\<bar> * pi / 360" by (simp add: abs_mult)
  also have "\<dots> < 180 * pi / 360" using assms by (simp add: field_simps)
  finally have t: "\<bar>(y - x) * pi / 180 / 2\<bar> < pi / 2" by simp
  show ?thesis
    using arctan_abs_sin_cos[OF t] sin_times_sin_le_1[of "(y - x) * pi / 360"]
    by (simp add: haversine_distance_def exact_math_def Let_def not_less[symmetric])
qed

lemma select_columns_device_point:
  "select_columns (device_point pid uid la lo t) = route_row pid la lo t"
  by (simp add: select_columns_def device_point_def route_row_def)

lemma line_route_points:
  "get_route_points line_route 1 0 =
     [route_row 1 0 0 43200000000, route_row 2 0 1 43260000000, route_row 3 0 2 43320000000]"
  by (simp add: get_route_points_def line_route_def select_columns_device_point sql_date_def)
     (simp add: device_point_def route_row_def)

lemma haversine_equator_deg:
  assumes "\<bar>y - x\<bar> < 180"
  shows "haversine_distance exact_math (Fin 0) (Fin x) (Fin 0) (Fin y)
           = Some (Fin (\<bar>y - x\<bar> * (6371000 * pi / 180)))"
  using haversine_equator[OF assms] by (simp add: abs_mult)

lemma exact_math_ops:
  "float_add exact_math = lift2 (+)" "float_sub exact_math = lift2 (-)"
  "float_mul exact_math = lift2 (*)" "float_div exact_math = lift2 (/)"
  "math_radians exact_math = lift1 (\<lambda>x. x * pi / 180)"
  "math_sin exact_math = trig sin" "math_cos exact_math = trig cos"
  "math_sqrt exact_math = exact_sqrt" "math_atan2 exact_math = lift2 atan2_real"
  by (simp_all add: exact_math_def)

lemma line_route_penalty_0:
  "distance_penalty exact_math (Fin 0) (Fin (1/2)) (route_row 1 0 0 t1) (route_row 2 0 1 t2) = Some (Fin 0)"
  by (simp add: distance_penalty_def route_row_def haversine_equator_deg exact_math_ops)

lemma line_route_penalty_1:
  "distance_penalty exact_math (Fin 0) (Fin (1/2)) (route_row 2 0 1 t1) (route_row 3 0 2 t2)
     = Some (Fin (6371000 * pi / 180))"
  by (simp add: distance_penalty_def route_row_def haversine_equator_deg exact_math_ops)

lemma line_route_best: 
  "find_best_position exact_math (Fin 0) (Fin (1/2)) (get_route_points line_route 1 0) = Some 0"
  by (simp add: find_best_position_def line_route_points line_route_penalty_0 line_route_penalty_1)

lemma divide_and_round_2:
  "divide_and_round g 2 = (if odd g \<and> odd (g div 2) then g div 2 + 1 else g div 2)"
  unfolding divide_and_round_def Let_def by presburger

lemma divide_and_round_2_bounds:
  assumes "0 < g"
  shows "0 \<le> divide_and_round g 2" and "divide_and_round g 2 < g"
    and "2 \<le> g \<Longrightarrow> 0 < divide_and_round g 2"
    and "even g \<Longrightarrow> 2 * divide_and_round g 2 = g"
  using assms unfolding divide_and_round_2 by presburger+

lemma sorted_wrt_nth_Suc:
  "sorted_wrt (<) xs \<Longrightarrow> Suc i < length xs \<Longrightarrow> xs ! i < xs ! Suc i"
  by (simp add: sorted_wrt_iff_nth_less)

lemma tight_route_points:
  "get_route_points tight_route 1 0 =
     [route_row 1 0 0 43200000000, route_row 2 0 1 43200000001]"
  by (simp add: get_route_points_def tight_route_def select_columns_device_point sql_date_def)
     (simp add: device_point_def route_row_def)

lemma two_point_best:
  "distance_penalty M lat lon p q \<noteq> None \<Longrightarrow> find_best_position M lat lon [p, q] = Some 0"
  by (auto simp: find_best_position_def)

lemma tight_route_best:
  "find_best_position exact_math (Fin 0) (Fin (1/2)) (get_route_points tight_route 1 0) = Some 0"
  unfolding tight_route_points
  by (rule two_point_best) (simp add: line_route_penalty_0)

lemma haversine_exact_NaN:
  "haversine_distance exact_math NaN NaN (Fin a) (Fin b) = Some NaN"
  by (simp add: haversine_distance_def exact_math_ops Let_def)

lemma line_route_penalty_NaN:
  "\<bar>lo2 - lo1\<bar> < 180 \<Longrightarrow>
   distance_penalty exact_math NaN NaN (route_row i1 0 lo1 t1) (route_row i2 0 lo2 t2) = Some NaN"
  by (simp add: distance_penalty_def route_row_def haversine_exact_NaN haversine_equator_deg
        exact_math_ops)

lemma line_route_best_NaN:
  "find_best_position exact_math NaN NaN (get_route_points line_route 1 0) = Some 0"
  by (simp add: find_best_position_def line_route_points line_route_penalty_NaN)

lemma single_route_points:
  "get_route_points single_route 9 0 = [route_row 1 0 0 32400000000]"
  "get_route_points single_route 9 1 = []"
  by (simp_all add: get_route_points_def single_route_def select_columns_device_point sql_date_def)
     (simp_all add: device_point_def route_row_def)

lemma single_route_timestamp:
  "find_insertion_timestamp M single_route 9 0 lat lon = Inr 32430000000"
  by (simp add: find_insertion_timestamp_def single_route_points py_index_last_def)
     (simp add: route_row_def timedelta_seconds_def)



lemma round_up_math_ops:
  "float_add round_up_math = lift2 (\<lambda>x y. (x + y) * (1 + 1 / 2 ^ 52))"
  "float_sub round_up_math = lift2 (-)"
  "float_mul round_up_math = lift2 (*)" "float_div round_up_math = lift2 (/)"
  "math_radians round_up_math = lift1 (\<lambda>x. x * pi / 180)"
  "math_sin round_up_math = trig sin" "math_cos round_up_math = trig cos"
  "math_sqrt round_up_math = exact_sqrt" "math_atan2 round_up_math = lift2 atan2_real"
  by (simp_all add: round_up_math_def exact_math_def)

lemma haversine_round_up_antipodal:
  "haversine_distance round_up_math (Fin 8) (Fin 9) (Fin (- 8)) (Fin (- 171)) = None"
proof -
  have sc: "sin (2 * pi / 45) * sin (2 * pi / 45) + cos (2 * pi / 45) * cos (2 * pi / 45) = 1"
    using sin_cos_squared_add[of "2 * pi / 45"] by (simp add: power2_eq_square)
  have "sin (2 * pi / 45) * sin (2 * pi / 45) * 4503599627370497
          + cos (2 * pi / 45) * cos (2 * pi / 45) * 4503599627370497
        = (sin (2 * pi / 45) * sin (2 * pi / 45) + cos (2 * pi / 45) * cos (2 * pi / 45))
            * 4503599627370497"
    by (simp add: distrib_right)
  then have a: "sin (2 * pi / 45) * sin (2 * pi / 45) * 4503599627370497
          + cos (2 * pi / 45) * cos (2 * pi / 45) * 4503599627370497 = 4503599627370497"
    unfolding sc by simp
  show ?thesis
    by (simp add: haversine_distance_def round_up_math_ops Let_def a)
qed

lemma distance_penalty_original_None:
  "haversine_distance M (pt_latitude p) (pt_longitude p) (pt_latitude q) (pt_longitude q) = None
   \<Longrightarrow> distance_penalty M lat lon p q = None"
  by (simp add: distance_penalty_def split: Option.bind_split)

lemma antipodal_route_points:
  "get_route_points antipodal_route 1 0 =
     [route_row 1 8 9 43200000000, route_row 2 (- 8) (- 171) 43260000000]"
  by (simp add: get_route_points_def antipodal_route_def select_columns_device_point sql_date_def)
     (simp add: device_point_def route_row_def)

lemma antipodal_penalty:
  "distance_penalty round_up_math lat lon (route_row 1 8 9 t1) (route_row 2 (- 8) (- 171) t2) = None"
  by (rule distance_penalty_original_None) (simp add: route_row_def haversine_round_up_antipodal)

section \<open>Listing the routes\<close>

lemma sql_lt_irrefl: "\<not> sql_lt a a"
  by (cases a) auto

lemma sql_lt_asym: "sql_lt a b \<Longrightarrow> \<not> sql_lt b a"
  by (cases a; cases b) auto

lemma sql_lt_chain: "sql_lt a r \<Longrightarrow> \<not> sql_lt m r \<Longrightarrow> sql_lt a m"
  by (cases a; cases r; cases m) auto

lemma sql_lt_chain2: "sql_lt r a \<Longrightarrow> \<not> sql_lt r m \<Longrightarrow> sql_lt m a"
  by (cases a; cases r; cases m) auto

lemma fold_sql_min:
  "fold sql_min xs a \<in> insert a (set xs) \<and> (\<forall>x \<in> insert a (set xs). \<not> sql_lt x (fold sql_min xs a))"
proof (induction xs arbitrary: a)
  case Nil
  show ?case by (simp add: sql_lt_irrefl)
next
  case (Cons y ys)
  let ?m = "sql_min y a" and ?r = "fold sql_min ys (sql_min y a)"
  from Cons.IH[of ?m] have mem: "?r \<in> insert ?m (set ys)"
    and low: "\<forall>x \<in> insert ?m (set ys). \<not> sql_lt x ?r" by blast+
  have m: "?m = a \<or> ?m = y" by (simp add: sql_min_def)
  have ma: "\<not> sql_lt a ?m" and my: "\<not> sql_lt y ?m"
    by (auto simp: sql_min_def sql_lt_irrefl dest: sql_lt_asym)
  from low have mr: "\<not> sql_lt ?m ?r" by simp
  have "\<not> sql_lt a ?r" using ma mr sql_lt_chain by blast
  moreover have "\<not> sql_lt y ?r" using my mr sql_lt_chain by blast
  ultimately show ?case using mem low m by auto
qed

lemma fold_sql_max:
  "fold sql_max xs a \<in> insert a (set xs) \<and> (\<forall>x \<in> insert a (set xs). \<not> sql_lt (fold sql_max xs a) x)"
proof (induction xs arbitrary: a)
  case Nil
  show ?case by (simp add: sql_lt_irrefl)
next
  case (Cons y ys)
  let ?m = "sql_max y a" and ?r = "fold sql_max ys (sql_max y a)"
  from Cons.IH[of ?m] have mem: "?r \<in> insert ?m (set ys)"
    and low: "\<forall>x \<in> insert ?m (set ys). \<not> sql_lt ?r x" by blast+
  have m: "?m = a \<or> ?m = y" by (simp add: sql_max_def)
  have ma: "\<not> sql_lt ?m a" and my: "\<not> sql_lt ?m y"
    by (auto simp: sql_max_def sql_lt_irrefl dest: sql_lt_asym)
  from low have mr: "\<not> sql_lt ?r ?m" by simp
  have "\<not> sql_lt ?r a" using ma mr sql_lt_chain2 by blast
  moreover have "\<not> sql_lt ?r y" using my mr sql_lt_chain2 by blast
  ultimately show ?case using mem low m by auto
qed

lemma fold_min_int:
  fixes a :: int
  shows "fold min xs a \<in> insert a (set xs) \<and> (\<forall>x \<in> insert a (set xs). fold min xs a \<le> x)"
proof (induction xs arbitrary: a)
  case (Cons y ys)
  from Cons.IH[of "min a y"] show ?case by (auto simp: min_def split: if_splits)
qed simp

lemma fold_max_int:
  fixes a :: int
  shows "fold max xs a \<in> insert a (set xs) \<and> (\<forall>x \<in> insert a (set xs). x \<le> fold max xs a)"
proof (induction xs arbitrary: a)
  case (Cons y ys)
  from Cons.IH[of "max a y"] show ?case by (auto simp: max_def split: if_splits)
qed simp

lemma group_sql_min:
  assumes "g \<noteq> []"
  shows "fold sql_min (map f (tl g)) (f (hd g)) \<in> f ` set g"
    and "\<forall>p \<in> set g. \<not> sql_lt (f p) (fold sql_min (map f (tl g)) (f (hd g)))"
  using assms fold_sql_min[of "map f (tl g)" "f (hd g)"] by (cases g; auto)+

lemma group_sql_max:
  assumes "g \<noteq> []"
  shows "fold sql_max (map f (tl g)) (f (hd g)) \<in> f ` set g"
    and "\<forall>p \<in> set g. \<not> sql_lt (fold sql_max (map f (tl g)) (f (hd g))) (f p)"
  using assms fold_sql_max[of "map f (tl g)" "f (hd g)"] by (cases g; auto)+

lemma group_min_int:
  fixes f :: "'a \<Rightarrow> int"
  assumes "g \<noteq> []"
  shows "fold min (map f (tl g)) (f (hd g)) \<in> f ` set g"
    and "\<forall>p \<in> set g. fold min (map f (tl g)) (f (hd g)) \<le> f p"
  using assms fold_min_int[of "map f (tl g)" "f (hd g)"] by (cases g; auto)+

lemma group_max_int:
  fixes f :: "'a \<Rightarrow> int"
  assumes "g \<noteq> []"
  shows "fold max (map f (tl g)) (f (hd g)) \<in> f ` set g"
    and "\<forall>p \<in> set g. f p \<le> fold max (map f (tl g)) (f (hd g))"
  using assms fold_max_int[of "map f (tl g)" "f (hd g)"] by (cases g; auto)+

lemma summarize_aggregates:
  assumes "g \<noteq> []"
  shows "route_date (summarize d g) = d" and "point_count (summarize d g) = length g"
    and "start_time (summarize d g) \<in> recorded_at ` set g"
    and "\<forall>p \<in> set g. start_time (summarize d g) \<le> recorded_at p"
    and "end_time (summarize d g) \<in> recorded_at ` set g"
    and "\<forall>p \<in> set g. recorded_at p \<le> end_time (summarize d g)"
    and "min_lat (summarize d g) \<in> (the \<circ> latitude) ` set g"
    and "\<forall>p \<in> set g. \<not> sql_lt ((the \<circ> latitude) p) (min_lat (summarize d g))"
    and "max_lat (summarize d g) \<in> (the \<circ> latitude) ` set g"
    and "\<forall>p \<in> set g. \<not> sql_lt (max_lat (summarize d g)) ((the \<circ> latitude) p)"
    and "min_lon (summarize d g) \<in> (the \<circ> longitude) ` set g"
    and "\<forall>p \<in> set g. \<not> sql_lt ((the \<circ> longitude) p) (min_lon (summarize d g))"
    and "max_lon (summarize d g) \<in> (the \<circ> longitude) ` set g"
    and "\<forall>p \<in> set g. \<not> sql_lt (max_lon (summarize d g)) ((the \<circ> longitude) p)"
  unfolding summarize_def route_summary.simps
  using group_min_int[OF assms, of recorded_at] group_max_int[OF assms, of recorded_at]
    group_sql_min[OF assms, of "the \<circ> latitude"] group_sql_max[OF assms, of "the \<circ> latitude"]
    group_sql_min[OF assms, of "the \<circ> longitude"] group_sql_max[OF assms, of "the \<circ> longitude"]
  by simp_all

lemma sorted_wrt_desc_dates:
  fixes xs :: "int list"
  shows "sorted_wrt (>) (filter P (rev (sort (remdups xs))))"
proof -
  have "sorted_wrt (<) (sort (remdups xs))"
    by (simp add: strict_sorted_iff)
  then have "sorted_wrt (>) (rev (sort (remdups xs)))"
    by (simp add: sorted_wrt_rev)
  then show ?thesis by (rule sorted_wrt_filter)
qed

lemma map_route_date_summarize:
  "map route_date (map (\<lambda>d. summarize d (G d)) ds) = ds"
  by (induction ds) (simp_all add: summarize_def)

lemma device_point_fields:
  "point_id (device_point pid uid la lo t) = pid" "user_id (device_point pid uid la lo t) = uid"
  "latitude (device_point pid uid la lo t) = Some (Fin la)"
  "longitude (device_point pid uid la lo t) = Some (Fin lo)"
  "recorded_at (device_point pid uid la lo t) = t"
  by (simp_all add: device_point_def)

lemma null_point_fields:
  "point_id (null_point pid uid t) = pid" "user_id (null_point pid uid t) = uid"
  "latitude (null_point pid uid t) = None" "longitude (null_point pid uid t) = None"
  "recorded_at (null_point pid uid t) = t"
  by (simp_all add: null_point_def)

lemma window_date_group:
  "date_group st uid c d =
     filter (\<lambda>p. user_id p = uid \<and> c \<le> recorded_at p \<and> latitude p \<noteq> None
                 \<and> longitude p \<noteq> None \<and> recorded_at p div 86400000000 = d) (points_tbl st)"
  by (simp add: date_group_def window_rows_def sql_date_def conj_ac)

lemma datetime_minus_days_cases:
  "datetime_minus_days now days_back =
     (if 999999999 < \<bar>days_back\<bar> \<or> now - days_back * 86400000000 < datetime_min
         \<or> datetime_max < now - days_back * 86400000000
      then Inl OverflowError else Inr (now - days_back * 86400000000))"
  by (simp add: datetime_minus_days_def timedelta_max_days_def timedelta_days_def Let_def)

lemma listed_routes:
  fixes st :: store and uid :: int and c :: timestamp
  defines "routes \<equiv> map (\<lambda>d. summarize d (date_group st uid c d))
              (filter (\<lambda>d. length (date_group st uid c d) \<ge> 5)
                 (rev (sort (remdups (map (sql_date \<circ> recorded_at) (window_rows st uid c))))))"
  shows "set (map route_date routes) = {d. 5 \<le> length (date_group st uid c d)}"
    and "sorted_wrt (>) (map route_date routes)"
    and "\<forall>s \<in> set routes.
        point_count s = length (date_group st uid c (route_date s))
      \<and> start_time s \<in> recorded_at ` set (date_group st uid c (route_date s))
      \<and> end_time s \<in> recorded_at ` set (date_group st uid c (route_date s))
      \<and> min_lat s \<in> (the \<circ> latitude) ` set (date_group st uid c (route_date s))
      \<and> max_lat s \<in> (the \<circ> latitude) ` set (date_group st uid c (route_date s))
      \<and> min_lon s \<in> (the \<circ> longitude) ` set (date_group st uid c (route_date s))
      \<and> max_lon s \<in> (the \<circ> longitude) ` set (date_group st uid c (route_date s))
      \<and> (\<forall>p \<in> set (date_group st uid c (route_date s)).
            start_time s \<le> recorded_at p \<and> recorded_at p \<le> end_time s
          \<and> \<not> sql_lt ((the \<circ> latitude) p) (min_lat s) \<and> \<not> sql_lt (max_lat s) ((the \<circ> latitude) p)
          \<and> \<not> sql_lt ((the \<circ> longitude) p) (min_lon s) \<and> \<not> sql_lt (max_lon s) ((the \<circ> longitude) p))"
proof -
  define dts where "dts = rev (sort (remdups (map (sql_date \<circ> recorded_at) (window_rows st uid c))))"
  define kept where "kept = filter (\<lambda>d. length (date_group st uid c d) \<ge> 5) dts"
  have routes: "routes = map (\<lambda>d. summarize d (date_group st uid c d)) kept"
    by (simp add: routes_def dts_def kept_def)
  have dates_eq: "map route_date routes = kept"
    unfolding routes by (rule map_route_date_summarize)
  have set_dates: "set dts = (sql_date \<circ> recorded_at) ` set (window_rows st uid c)"
    by (simp add: dts_def)
  have in_dates: "d \<in> set dts" if "5 \<le> length (date_group st uid c d)" for d
  proof -
    from that have "date_group st uid c d \<noteq> []" by auto
    then obtain p where "p \<in> set (date_group st uid c d)" by (cases "date_group st uid c d") auto
    then have "p \<in> set (window_rows st uid c)" "sql_date (recorded_at p) = d"
      by (simp_all add: date_group_def)
    then show ?thesis unfolding set_dates by force
  qed
  show "set (map route_date routes) = {d. 5 \<le> length (date_group st uid c d)}"
    unfolding dates_eq kept_def using in_dates by auto
  show "sorted_wrt (>) (map route_date routes)"
    unfolding dates_eq kept_def dts_def by (rule sorted_wrt_desc_dates)
  show "\<forall>s \<in> set routes.
        point_count s = length (date_group st uid c (route_date s))
      \<and> start_time s \<in> recorded_at ` set (date_group st uid c (route_date s))
      \<and> end_time s \<in> recorded_at ` set (date_group st uid c (route_date s))
      \<and> min_lat s \<in> (the \<circ> latitude) ` set (date_group st uid c (route_date s))
      \<and> max_lat s \<in> (the \<circ> latitude) ` set (date_group st uid c (route_date s))
      \<and> min_lon s \<in> (the \<circ> longitude) ` set (date_group st uid c (route_date s))
      \<and> max_lon s \<in> (the \<circ> longitude) ` set (date_group st uid c (route_date s))
      \<and> (\<forall>p \<in> set (date_group st uid c (route_date s)).
            start_time s \<le> recorded_at p \<and> recorded_at p \<le> end_time s
          \<and> \<not> sql_lt ((the \<circ> latitude) p) (min_lat s) \<and> \<not> sql_lt (max_lat s) ((the \<circ> latitude) p)
          \<and> \<not> sql_lt ((the \<circ> longitude) p) (min_lon s) \<and> \<not> sql_lt (max_lon s) ((the \<circ> longitude) p))"
  proof
    fix s assume "s \<in> set routes"
    then obtain d where d: "d \<in> set kept" and s: "s = summarize d (date_group st uid c d)"
      unfolding routes by auto
    from d have "5 \<le> length (date_group st uid c d)" by (simp add: kept_def)
    then have ne: "date_group st uid c d \<noteq> []" by auto
    have rd: "route_date s = d" by (simp add: s summarize_def)
    show "point_count s = length (date_group st uid c (route_date s))
      \<and> start_time s \<in> recorded_at ` set (date_group st uid c (route_date s))
      \<and> end_time s \<in> recorded_at ` set (date_group st uid c (route_date s))
      \<and> min_lat s \<in> (the \<circ> latitude) ` set (date_group st uid c (route_date s))
      \<and> max_lat s \<in> (the \<circ> latitude) ` set (date_group st uid c (route_date s))
      \<and> min_lon s \<in> (the \<circ> longitude) ` set (date_group st uid c (route_date s))
      \<and> max_lon s \<in> (the \<circ> longitude) ` set (date_group st uid c (route_date s))
      \<and> (\<forall>p \<in> set (date_group st uid c (route_date s)).
            start_time s \<le> recorded_at p \<and> recorded_at p \<le> end_time s
          \<and> \<not> sql_lt ((the \<circ> latitude) p) (min_lat s) \<and> \<not> sql_lt (max_lat s) ((the \<circ> latitude) p)
          \<and> \<not> sql_lt ((the \<circ> longitude) p) (min_lon s) \<and> \<not> sql_lt (max_lon s) ((the \<circ> longitude) p))"
      unfolding rd unfolding s
      using summarize_aggregates[OF ne, of d] by blast
  qed
qed

lemma week_window_day:
  "window_rows week_store 1 86400001001 =
         [device_point 8 1 1 1 86400002000,
          device_point 9 1 1 2 86400003000, device_point 10 1 1 3 86400004000,
          device_point 11 1 1 4 86400005000,
          device_point 12 1 2 0 172800001000, device_point 13 1 2 1 172800002000,
          device_point 14 1 2 2 172800003000, device_point 15 1 2 3 172800004000,
          device_point 16 1 2 4 172800005000]"
  by (simp add: window_rows_def week_store_def device_point_fields null_point_fields)

lemma sql_date_device_point:
  "sql_date (recorded_at (device_point pid uid la lo t)) = t div 86400000000"
  by (simp add: device_point_def sql_date_def)

lemma week_day_groups:
  "date_group week_store 1 86400001001 1 =
     [device_point 8 1 1 1 86400002000, device_point 9 1 1 2 86400003000,
      device_point 10 1 1 3 86400004000, device_point 11 1 1 4 86400005000]"
  "date_group week_store 1 86400001001 2 =
     [device_point 12 1 2 0 172800001000, device_point 13 1 2 1 172800002000,
      device_point 14 1 2 2 172800003000, device_point 15 1 2 3 172800004000,
      device_point 16 1 2 4 172800005000]"
  unfolding date_group_def week_window_day by (simp_all add: sql_date_device_point)

lemma week_day_dates:
  "rev (sort (remdups (map (sql_date \<circ> recorded_at) (window_rows week_store 1 86400001001))))
     = [2, 1]"
  unfolding week_window_day by (simp add: sql_date_device_point)

lemma week_cutoff: "datetime_minus_days 172800001001 1 = Inr 86400001001"
  by (simp add: datetime_minus_days_def timedelta_max_days_def timedelta_days_def
        datetime_min_def datetime_max_def)

lemma week_day_routes:
  "get_user_routes week_store 172800001001 1 1
     = Inr [summarize 2 (date_group week_store 1 86400001001 2)]"
  unfolding get_user_routes_def week_cutoff sum.case Let_def week_day_dates
  by (simp add: week_day_groups)

lemma week_day_1_rows:
  "filter (\<lambda>p. user_id p = 1 \<and> latitude p \<noteq> None \<and> longitude p \<noteq> None
               \<and> sql_date (recorded_at p) = 1) (points_tbl week_store) =
     [device_point 7 1 1 0 86400001000, device_point 8 1 1 1 86400002000,
      device_point 9 1 1 2 86400003000, device_point 10 1 1 3 86400004000,
      device_point 11 1 1 4 86400005000]"
  by (simp add: week_store_def device_point_fields null_point_fields sql_date_def)

section \<open>Deleting a point\<close>

lemma delete_point_failed:
  "\<forall>p \<in> set (points_tbl st). point_id p = pid \<longrightarrow> user_id p \<noteq> uid \<Longrightarrow>
   delete_point st uid pid = (DeleteFailed ''Point not found or not authorized'', st)"
proof -
  assume a: "\<forall>p \<in> set (points_tbl st). point_id p = pid \<longrightarrow> user_id p \<noteq> uid"
  then have "filter (\<lambda>p. point_id p = pid \<and> user_id p = uid) (points_tbl st) = []"
    by (auto simp: filter_empty_conv)
  then show ?thesis by (simp add: delete_point_def)
qed

lemma delete_point_removed_rows:
  "p \<in> set (points_tbl st) \<Longrightarrow> p \<notin> set (points_tbl (snd (delete_point st uid pid))) \<Longrightarrow>
   point_id p = pid \<and> user_id p = uid"
  by (auto simp: delete_point_def Let_def split: if_splits)

lemma filter_other_ids:
  assumes "\<forall>x \<in> set xs. f x \<noteq> k"
  shows "filter (\<lambda>p. \<not> (f p = k \<and> Q p)) xs = xs"
  using assms by (induction xs) auto

section \<open>The claims\<close>

text \<open>
  C1, as amended. When no distance computation raises, a gap is selected, and it is the
  first gap of minimal penalty among the gaps whose penalty compares below infinity (a
  number, not NaN); when no gap has such a penalty, gap 0 is selected. In particular,
  when no penalty is NaN the selected gap has the minimal penalty of all gaps and is the
  first with it. A distance that raises ends the call without a selection: Python raises
  \<^verbatim>\<open>ValueError\<close> in \<^verbatim>\<open>math.sqrt(1 - a)\<close> for the route points (8, 9) and (-8, -171);
  and with a NaN coordinate the selected gap 0 has a NaN penalty, which is not below or
  equal to any other.
\<close>

theorem first_minimum_when_no_error:
  assumes "points = get_route_points st uid rdate" and "2 \<le> length points"
    and "\<forall>j. Suc j < length points \<longrightarrow>
           distance_penalty M lat lon (points ! j) (points ! Suc j) \<noteq> None"
  shows "\<exists>i pi. find_best_position M lat lon points = Some i \<and> Suc i < length points
           \<and> distance_penalty M lat lon (points ! i) (points ! Suc i) = Some pi
           \<and> (if \<exists>j pj. Suc j < length points
                    \<and> distance_penalty M lat lon (points ! j) (points ! Suc j) = Some pj
                    \<and> float_lt pj PInf
               then float_lt pi PInf
                  \<and> (\<forall>j pj. Suc j < length points
                        \<and> distance_penalty M lat lon (points ! j) (points ! Suc j) = Some pj
                        \<and> float_lt pj PInf
                        \<longrightarrow> float_le pi pj \<and> (j < i \<longrightarrow> float_lt pi pj))
               else i = 0)
           \<and> ((\<forall>j. Suc j < length points \<longrightarrow>
                   distance_penalty M lat lon (points ! j) (points ! Suc j) \<noteq> Some NaN)
               \<longrightarrow> (\<forall>j pj. Suc j < length points
                        \<and> distance_penalty M lat lon (points ! j) (points ! Suc j) = Some pj
                        \<longrightarrow> float_le pi pj \<and> (j < i \<longrightarrow> float_lt pi pj)))"
proof -
  let ?dp = "\<lambda>j. distance_penalty M lat lon (points ! j) (points ! Suc j)"
  have "find_best_position M lat lon points \<noteq> None"
    unfolding find_best_position_def scan_gaps_None using assms(3) by blast
  then obtain i where i: "find_best_position M lat lon points = Some i" by blast
  from assms(2) have len0: "Suc 0 < length points" by simp
  from find_best_position_cases[OF i assms(2)]
  show ?thesis
  proof (elim disjE conjE exE)
    assume i0: "i = 0"
      and none: "\<forall>j. Suc j < length points \<longrightarrow> (\<exists>p. ?dp j = Some p \<and> \<not> float_lt p PInf)"
    from none len0 obtain p0 where p0: "?dp 0 = Some p0" by blast
    have no_cand: "\<not> (\<exists>j pj. Suc j < length points \<and> ?dp j = Some pj \<and> float_lt pj PInf)"
      using none by fastforce
    have plain: "float_le p0 pj \<and> (j < 0 \<longrightarrow> float_lt p0 pj)"
      if nn: "\<forall>j. Suc j < length points \<longrightarrow> ?dp j \<noteq> Some NaN"
        and j: "Suc j < length points" "?dp j = Some pj" for j pj
    proof -
      from none len0 p0 have "\<not> float_lt p0 PInf" by fastforce
      moreover from nn len0 p0 have "p0 \<noteq> NaN" by auto
      ultimately have a: "p0 = PInf" by (rule float_not_below_PInf[rotated])
      from none j have "\<not> float_lt pj PInf" by fastforce
      moreover from nn j have "pj \<noteq> NaN" by auto
      ultimately have "pj = PInf" by (rule float_not_below_PInf[rotated])
      with a show ?thesis by simp
    qed
    show ?thesis
      apply (rule exI[of _ 0], rule exI[of _ p0])
      using i i0 len0 p0 no_cand plain by auto
  next
    fix pi
    assume b: "Suc i < length points" and pi: "?dp i = Some pi" and lt: "float_lt pi PInf"
      and all: "\<forall>j. Suc j < length points \<longrightarrow>
                  (\<exists>p. ?dp j = Some p \<and> \<not> float_lt p pi \<and> (j < i \<longrightarrow> \<not> float_le p pi))"
    have pin: "pi \<noteq> NaN" using lt by (rule float_lt_PInf_number)
    have ord: "float_le pi pj \<and> (j < i \<longrightarrow> float_lt pi pj)"
      if j: "Suc j < length points" "?dp j = Some pj" and n: "pj \<noteq> NaN" for j pj
    proof -
      from all j have 1: "\<not> float_lt pj pi" and 2: "j < i \<longrightarrow> \<not> float_le pj pi" by auto
      from 1 have "float_le pi pj" using pin n by (intro float_le_of_not_lt)
      moreover from 2 have "j < i \<longrightarrow> float_lt pi pj" using pin n float_lt_of_not_le by blast
      ultimately show ?thesis by simp
    qed
    have cand: "\<exists>j pj. Suc j < length points \<and> ?dp j = Some pj \<and> float_lt pj PInf"
      using b pi lt by blast
    have c1: "\<forall>j pj. Suc j < length points \<and> ?dp j = Some pj \<and> float_lt pj PInf
                 \<longrightarrow> float_le pi pj \<and> (j < i \<longrightarrow> float_lt pi pj)"
      using ord float_lt_PInf_number by blast
    have c2: "(\<forall>j. Suc j < length points \<longrightarrow> ?dp j \<noteq> Some NaN)
               \<longrightarrow> (\<forall>j pj. Suc j < length points \<and> ?dp j = Some pj
                        \<longrightarrow> float_le pi pj \<and> (j < i \<longrightarrow> float_lt pi pj))"
      using ord by blast
    show ?thesis
      apply (rule exI[of _ i], rule exI[of _ pi])
      using i b pi lt cand c1 c2 by simp
  qed
qed

theorem first_minimum_when_no_error_witness:
  "2 \<le> length (get_route_points line_route 1 0)
   \<and> distance_penalty exact_math (Fin 0) (Fin (1/2))
        (get_route_points line_route 1 0 ! 0) (get_route_points line_route 1 0 ! 1) = Some (Fin 0)
   \<and> distance_penalty exact_math (Fin 0) (Fin (1/2))
        (get_route_points line_route 1 0 ! 1) (get_route_points line_route 1 0 ! 2)
        = Some (Fin (6371000 * pi / 180))
   \<and> find_best_position exact_math (Fin 0) (Fin (1/2)) (get_route_points line_route 1 0) = Some 0
   \<and> float_le (Fin 0) (Fin (6371000 * pi / 180))"
proof -
  have len: "2 \<le> length (get_route_points line_route 1 0)" by (simp add: line_route_points)
  have p0: "distance_penalty exact_math (Fin 0) (Fin (1/2))
        (get_route_points line_route 1 0 ! 0) (get_route_points line_route 1 0 ! 1) = Some (Fin 0)"
    by (simp add: line_route_points line_route_penalty_0)
  have p1: "distance_penalty exact_math (Fin 0) (Fin (1/2))
        (get_route_points line_route 1 0 ! 1) (get_route_points line_route 1 0 ! 2)
        = Some (Fin (6371000 * pi / 180))"
    by (simp add: line_route_points line_route_penalty_1)
  have all: "\<forall>j. Suc j < length (get_route_points line_route 1 0) \<longrightarrow>
      distance_penalty exact_math (Fin 0) (Fin (1/2))
        (get_route_points line_route 1 0 ! j) (get_route_points line_route 1 0 ! Suc j) \<noteq> None"
  proof (intro allI impI)
    fix j assume "Suc j < length (get_route_points line_route 1 0)"
    then have "j = 0 \<or> j = 1" by (auto simp: line_route_points)
    then show "distance_penalty exact_math (Fin 0) (Fin (1/2))
        (get_route_points line_route 1 0 ! j) (get_route_points line_route 1 0 ! Suc j) \<noteq> None"
      using p0 p1 by (auto simp: numeral_2_eq_2)
  qed
  from first_minimum_when_no_error[OF refl len all]
  obtain i where i: "find_best_position exact_math (Fin 0) (Fin (1/2))
        (get_route_points line_route 1 0) = Some i"
    by blast
  with line_route_best have "i = 0" by simp
  with i len p0 p1 show ?thesis by simp
qed

theorem first_minimum_counterexample:
  "length (get_route_points antipodal_route 1 0) = 2
   \<and> distance_penalty round_up_math (Fin 0) (Fin 0)
        (get_route_points antipodal_route 1 0 ! 0) (get_route_points antipodal_route 1 0 ! 1) = None
   \<and> find_best_position round_up_math (Fin 0) (Fin 0) (get_route_points antipodal_route 1 0) = None
   \<and> find_insertion_timestamp round_up_math antipodal_route 1 0 (Fin 0) (Fin 0) = Inl ValueError
   \<and> find_best_position exact_math NaN NaN (get_route_points line_route 1 0) = Some 0
   \<and> distance_penalty exact_math NaN NaN
        (get_route_points line_route 1 0 ! 0) (get_route_points line_route 1 0 ! 1) = Some NaN
   \<and> distance_penalty exact_math NaN NaN
        (get_route_points line_route 1 0 ! 1) (get_route_points line_route 1 0 ! 2) = Some NaN
   \<and> \<not> float_le NaN NaN"
proof -
  have b: "find_best_position round_up_math (Fin 0) (Fin 0) (get_route_points antipodal_route 1 0) = None"
    by (simp add: find_best_position_def antipodal_route_points antipodal_penalty)
  then have "find_insertion_timestamp round_up_math antipodal_route 1 0 (Fin 0) (Fin 0) = Inl ValueError"
    by (simp add: find_insertion_timestamp_def Let_def) (simp add: antipodal_route_points)
  with b show ?thesis
    by (simp add: line_route_best_NaN)
       (simp add: antipodal_route_points antipodal_penalty line_route_points line_route_penalty_NaN)
qed

text \<open>
  C2, as amended. The timestamps are whole microseconds, and half of an odd gap is rounded
  to the even neighbour. For strictly increasing timestamps the synthesized timestamp is
  \<open>t_prev\<close> plus the rounded half of the gap; it is never before \<open>t_prev\<close> and always before
  \<open>t_next\<close>; it is after \<open>t_prev\<close> when the gap is at least two microseconds, and the exact
  midpoint when the gap is even. For a gap of one microsecond it is \<open>t_prev\<close> itself, as
  the evaluation on \<open>tight_route\<close> shows.
\<close>

theorem insertion_timestamp_rounded_midpoint:
  assumes "points = get_route_points st uid rdate" and "2 \<le> length points"
    and "sorted_wrt (<) (map pt_recorded_at points)"
    and "find_best_position M lat lon points = Some i"
  shows "\<exists>t_prev t_next ts.
           t_prev = pt_recorded_at (points ! i) \<and> t_next = pt_recorded_at (points ! (i + 1))
         \<and> find_insertion_timestamp M st uid rdate lat lon = Inr ts
         \<and> ts = t_prev + divide_and_round (t_next - t_prev) 2
         \<and> t_prev \<le> ts \<and> ts < t_next
         \<and> (2 \<le> t_next - t_prev \<longrightarrow> t_prev < ts)
         \<and> (even (t_next - t_prev) \<longrightarrow> 2 * (ts - t_prev) = t_next - t_prev)"
proof -
  from assms(2,4) have b: "Suc i < length points" by (rule find_best_position_bound)
  let ?t1 = "pt_recorded_at (points ! i)" and ?t2 = "pt_recorded_at (points ! (i + 1))"
  have "map pt_recorded_at points ! i < map pt_recorded_at points ! Suc i"
    using assms(3) b by (intro sorted_wrt_nth_Suc) simp_all
  then have g: "0 < ?t2 - ?t1" using b by simp
  have res: "find_insertion_timestamp M st uid rdate lat lon = Inr (?t1 + divide_and_round (?t2 - ?t1) 2)"
    using assms(1,2,4) b by (simp add: find_insertion_timestamp_def Let_def py_index_def)
  show ?thesis
    using res divide_and_round_2_bounds[OF g] by simp
qed

theorem insertion_timestamp_rounded_midpoint_witness:
  "2 \<le> length (get_route_points line_route 1 0)
   \<and> sorted_wrt (<) (map pt_recorded_at (get_route_points line_route 1 0))
   \<and> find_best_position exact_math (Fin 0) (Fin (1/2)) (get_route_points line_route 1 0) = Some 0
   \<and> pt_recorded_at (get_route_points line_route 1 0 ! 0) = 43200000000
   \<and> pt_recorded_at (get_route_points line_route 1 0 ! (0 + 1)) = 43260000000
   \<and> find_insertion_timestamp exact_math line_route 1 0 (Fin 0) (Fin (1/2)) = Inr 43230000000"
proof -
  have len: "2 \<le> length (get_route_points line_route 1 0)" by (simp add: line_route_points)
  have srt: "sorted_wrt (<) (map pt_recorded_at (get_route_points line_route 1 0))"
    by (simp add: line_route_points route_row_def)
  have t: "pt_recorded_at (get_route_points line_route 1 0 ! 0) = 43200000000"
     "pt_recorded_at (get_route_points line_route 1 0 ! (0 + 1)) = 43260000000"
    by (simp_all add: line_route_points route_row_def)
  from insertion_timestamp_rounded_midpoint[OF refl len srt line_route_best]
  have "find_insertion_timestamp exact_math line_route 1 0 (Fin 0) (Fin (1/2)) = Inr 43230000000"
    unfolding t by (simp add: divide_and_round_2)
  with len srt t line_route_best show ?thesis by simp
qed

theorem exact_midpoint_counterexample:
  "sorted_wrt (<) (map pt_recorded_at (get_route_points tight_route 1 0))
   \<and> pt_recorded_at (get_route_points tight_route 1 0 ! 0) = 43200000000
   \<and> pt_recorded_at (get_route_points tight_route 1 0 ! 1) = 43200000001
   \<and> find_insertion_timestamp exact_math tight_route 1 0 (Fin 0) (Fin (1/2)) = Inr 43200000000"
  using tight_route_best
  by (simp add: find_insertion_timestamp_def Let_def py_index_def divide_and_round_2)
     (simp add: tight_route_points route_row_def)

text \<open>
  C9. For a route of at least two points the selected index is at most
  \<^verbatim>\<open>len(points) - 2\<close>, whatever the penalties are (NaN and the infinities included), so
  \<^verbatim>\<open>points[best_position]\<close> and \<^verbatim>\<open>points[best_position + 1]\<close> do not raise and
  \<^verbatim>\<open>find_insertion_timestamp\<close> never ends in an \<^verbatim>\<open>IndexError\<close>.
\<close>

theorem best_position_in_bounds:
  assumes "points = get_route_points st uid rdate" and "2 \<le> length points"
  shows "find_insertion_timestamp M st uid rdate lat lon \<noteq> Inl IndexError
       \<and> (\<forall>i. find_best_position M lat lon points = Some i \<longrightarrow>
             i \<le> length points - 2
             \<and> py_index points i = Inr (points ! i)
             \<and> py_index points (i + 1) = Inr (points ! (i + 1)))"
proof (intro conjI allI impI)
  show "find_insertion_timestamp M st uid rdate lat lon \<noteq> Inl IndexError"
  proof (cases "find_best_position M lat lon points")
    case None
    with assms show ?thesis by (simp add: find_insertion_timestamp_def Let_def)
  next
    case (Some i)
    with assms(2) have "Suc i < length points" by (rule find_best_position_bound)
    with Some assms show ?thesis
      by (simp add: find_insertion_timestamp_def Let_def py_index_def)
  qed
next
  fix i assume "find_best_position M lat lon points = Some i"
  with assms(2) have b: "Suc i < length points" by (rule find_best_position_bound)
  then show "i \<le> length points - 2" by simp
  from b show "py_index points i = Inr (points ! i)" by (simp add: py_index_def)
  from b show "py_index points (i + 1) = Inr (points ! (i + 1))" by (simp add: py_index_def)
qed

theorem best_position_in_bounds_witness:
  "2 \<le> length (get_route_points line_route 1 0)
   \<and> distance_penalty exact_math NaN NaN
        (get_route_points line_route 1 0 ! 0) (get_route_points line_route 1 0 ! 1) = Some NaN
   \<and> find_best_position exact_math NaN NaN (get_route_points line_route 1 0) = Some 0
   \<and> (0::nat) \<le> length (get_route_points line_route 1 0) - 2
   \<and> py_index (get_route_points line_route 1 0) 0 = Inr (get_route_points line_route 1 0 ! 0)
   \<and> py_index (get_route_points line_route 1 0) (0 + 1)
        = Inr (get_route_points line_route 1 0 ! (0 + 1))
   \<and> find_insertion_timestamp exact_math line_route 1 0 NaN NaN \<noteq> Inl IndexError"
proof -
  have len: "2 \<le> length (get_route_points line_route 1 0)" by (simp add: line_route_points)
  have pen: "distance_penalty exact_math NaN NaN
        (get_route_points line_route 1 0 ! 0) (get_route_points line_route 1 0 ! 1) = Some NaN"
    by (simp add: line_route_points line_route_penalty_NaN)
  from best_position_in_bounds[OF refl len, of exact_math NaN NaN] line_route_best_NaN len pen
  show ?thesis by blast
qed

text \<open>
  C3. With exactly one point the timestamp is 30 seconds after that point's. With no
  point on the date \<^verbatim>\<open>points[-1]\<close> raises \<^verbatim>\<open>IndexError\<close>; the call stands before the
  \<^verbatim>\<open>try\<close> block of \<^verbatim>\<open>add_point_to_route\<close>, so the exception leaves the method and no
  result dictionary is returned. The store is not changed. Evaluated on the route of
  user 9, whose only point is on day 0: day 1 is an empty route.
\<close>

theorem empty_route_raises_IndexError:
  "get_route_points single_route 9 1 = []
   \<and> find_insertion_timestamp M single_route 9 1 lat lon = Inl IndexError
   \<and> add_point_to_route M rejects now single_route 9 1 lat lon alt acc
        = (Inl IndexError, single_route)
   \<and> find_insertion_timestamp M single_route 9 0 lat lon = Inr 32430000000"
proof -
  have e: "find_insertion_timestamp M single_route 9 1 lat lon = Inl IndexError"
    by (simp add: find_insertion_timestamp_def single_route_points py_index_last_def)
  then have "add_point_to_route M rejects now single_route 9 1 lat lon alt acc
        = (Inl IndexError, single_route)"
    by (simp add: add_point_to_route_def)
  with e show ?thesis by (simp add: single_route_points single_route_timestamp)
qed



text \<open>
  C6. \<^verbatim>\<open>accuracy or 20.0\<close> takes the default for every falsy value: a supplied accuracy
  of zero is stored as 20.0.
\<close>

theorem zero_accuracy_replaced_by_default:
  "add_point_to_route M (\<lambda>rows r. None) now single_route 9 0 lat lon None (Some (Fin 0))
     = (Inr (AddOk 2 32430000000),
        \<lparr> points_tbl = [device_point 1 9 0 0 32400000000,
             \<lparr> point_id = 2, user_id = 9, latitude = Some lat, longitude = Some lon,
               recorded_at = 32430000000, accuracy = Some (Fin 20), altitude = None,
               speed = None, battery = None, created_at = now, updated_at = now \<rparr>],
          next_id = 3 \<rparr>)"
  by (simp add: add_point_to_route_def single_route_timestamp py_or_def)
     (simp add: single_route_def device_point_def)

text \<open>
  C8. \<^verbatim>\<open>delete_point\<close> removes a row only if its id and its user id are the given ones.
  A point id that no row has and a point id whose row belongs to another user give the
  same result, \<^verbatim>\<open>Point not found or not authorized\<close>, and leave the store as it is.
\<close>

theorem delete_point_same_failure:
  assumes "\<forall>p \<in> set (points_tbl st1). point_id p \<noteq> pid"
    and "\<exists>p \<in> set (points_tbl st2). point_id p = pid"
    and "\<forall>p \<in> set (points_tbl st2). point_id p = pid \<longrightarrow> user_id p \<noteq> uid"
  shows "delete_point st1 uid pid = (DeleteFailed ''Point not found or not authorized'', st1)
       \<and> delete_point st2 uid pid = (DeleteFailed ''Point not found or not authorized'', st2)
       \<and> fst (delete_point st1 uid pid) = fst (delete_point st2 uid pid)
       \<and> (\<forall>st u p. p \<in> set (points_tbl st) \<and> p \<notin> set (points_tbl (snd (delete_point st u pid)))
             \<longrightarrow> point_id p = pid \<and> user_id p = u)"
proof -
  have 1: "delete_point st1 uid pid = (DeleteFailed ''Point not found or not authorized'', st1)"
    using assms(1) by (intro delete_point_failed) simp
  have 2: "delete_point st2 uid pid = (DeleteFailed ''Point not found or not authorized'', st2)"
    using assms(3) by (rule delete_point_failed)
  show ?thesis using 1 2 delete_point_removed_rows by auto
qed

theorem delete_point_same_failure_witness:
  "delete_point single_route 1 3 = (DeleteFailed ''Point not found or not authorized'', single_route)
   \<and> delete_point shared_store 1 3 = (DeleteFailed ''Point not found or not authorized'', shared_store)
   \<and> map point_id (points_tbl single_route) = [1]
   \<and> map (\<lambda>p. (point_id p, user_id p)) (points_tbl shared_store) = [(1, 1), (2, 1), (3, 2)]
   \<and> fst (delete_point shared_store 2 3) = DeleteOk ''Point deleted successfully''"
proof -
  have a: "\<forall>p \<in> set (points_tbl single_route). point_id p \<noteq> 3"
    by (simp add: single_route_def device_point_def)
  have b: "\<exists>p \<in> set (points_tbl shared_store). point_id p = 3"
    by (simp add: shared_store_def device_point_def)
  have c: "\<forall>p \<in> set (points_tbl shared_store). point_id p = 3 \<longrightarrow> user_id p \<noteq> 1"
    by (simp add: shared_store_def device_point_def)
  have d: "fst (delete_point shared_store 2 3) = DeleteOk ''Point deleted successfully''"
    by (simp add: delete_point_def shared_store_def device_point_def)
  have e: "map point_id (points_tbl single_route) = [1]"
    "map (\<lambda>p. (point_id p, user_id p)) (points_tbl shared_store) = [(1, 1), (2, 1), (3, 2)]"
    by (simp_all add: single_route_def shared_store_def device_point_def)
  from delete_point_same_failure[OF a b c] d e show ?thesis by simp
qed

text \<open>
  C10. The ids of the table are distinct (the primary key). Then a call either fails and
  leaves the store unchanged, or removes exactly one row, the one with the given id and
  user id, and keeps every other row, in the same order.
\<close>

theorem delete_point_frame:
  assumes "distinct (map point_id (points_tbl st))"
  shows "(delete_point st uid pid = (DeleteFailed ''Point not found or not authorized'', st)
            \<and> (\<forall>p \<in> set (points_tbl st). point_id p = pid \<longrightarrow> user_id p \<noteq> uid))
       \<or> (\<exists>xs r ys. points_tbl st = xs @ r # ys \<and> point_id r = pid \<and> user_id r = uid
            \<and> delete_point st uid pid
                 = (DeleteOk ''Point deleted successfully'', st\<lparr> points_tbl := xs @ ys \<rparr>))"
proof (cases "\<forall>p \<in> set (points_tbl st). point_id p = pid \<longrightarrow> user_id p \<noteq> uid")
  case True
  then show ?thesis using delete_point_failed by blast
next
  case False
  then obtain r where r: "r \<in> set (points_tbl st)" "point_id r = pid" "user_id r = uid" by blast
  then obtain xs ys where split: "points_tbl st = xs @ r # ys" by (meson split_list)
  from assms split have "\<forall>x \<in> set xs. point_id x \<noteq> pid" "\<forall>x \<in> set ys. point_id x \<noteq> pid"
    using r(2) by (auto simp: image_iff)
  then have "filter (\<lambda>p. \<not> (point_id p = pid \<and> user_id p = uid)) (points_tbl st) = xs @ ys"
    using r split by (simp add: filter_other_ids)
  moreover have "filter (\<lambda>p. point_id p = pid \<and> user_id p = uid) (points_tbl st) \<noteq> []"
    using r by (auto simp: filter_empty_conv)
  ultimately have "delete_point st uid pid
                 = (DeleteOk ''Point deleted successfully'', st\<lparr> points_tbl := xs @ ys \<rparr>)"
    by (simp add: delete_point_def)
  with split r show ?thesis by blast
qed

theorem delete_point_frame_witness:
  "distinct (map point_id (points_tbl shared_store))
   \<and> delete_point shared_store 1 2
        = (DeleteOk ''Point deleted successfully'',
           shared_store\<lparr> points_tbl := [device_point 1 1 0 0 43200000000,
                                           device_point 3 2 0 2 43320000000] \<rparr>)
   \<and> delete_point shared_store 1 3
        = (DeleteFailed ''Point not found or not authorized'', shared_store)"
proof -
  have d: "distinct (map point_id (points_tbl shared_store))"
    by (simp add: shared_store_def device_point_def)
  have t: "points_tbl shared_store = [device_point 1 1 0 0 43200000000,
             device_point 2 1 0 1 43260000000, device_point 3 2 0 2 43320000000]"
    by (simp add: shared_store_def)
  have ids: "point_id (device_point 1 1 0 0 43200000000) = 1"
    "point_id (device_point 2 1 0 1 43260000000) = 2"
    "point_id (device_point 3 2 0 2 43320000000) = 3"
    "user_id (device_point 3 2 0 2 43320000000) = 2"
    by (simp_all add: device_point_def)
  from delete_point_frame[OF d, of 1 3]
  have f: "delete_point shared_store 1 3
        = (DeleteFailed ''Point not found or not authorized'', shared_store)"
    unfolding t by (auto simp: ids Cons_eq_append_conv append_eq_Cons_conv)
  from delete_point_frame[OF d, of 1 2]
  have g: "delete_point shared_store 1 2
        = (DeleteOk ''Point deleted successfully'',
           shared_store\<lparr> points_tbl := [device_point 1 1 0 0 43200000000,
                                           device_point 3 2 0 2 43320000000] \<rparr>)"
    by (simp add: delete_point_def shared_store_def device_point_def)
  from d f g show ?thesis by simp
qed

text \<open>
  C7, as amended. The cutoff is the instant \<^verbatim>\<open>now - days_back\<close>, not a date. When the
  lookback is within the range of \<^verbatim>\<open>timedelta\<close> and the cutoff within the range of
  \<^verbatim>\<open>datetime\<close>, \<^verbatim>\<open>get_user_routes\<close> lists exactly the dates on which the user has at
  least five rows with both coordinates recorded at or after the cutoff, newest date first
  and each date once; every summary carries the number of those rows, the earliest and
  the latest timestamp among them, and the least and the greatest latitude and longitude
  among them (in the order of the store, \<open>sql_lt\<close>). Otherwise the call raises
  \<^verbatim>\<open>OverflowError\<close>. On \<open>week_store\<close> with the cutoff one microsecond after the first
  point of day 1, day 1 has five points with coordinates and is not listed.
\<close>

theorem get_user_routes_listing:
  fixes st :: store and now uid days_back :: int
  defines "cutoff \<equiv> now - days_back * 86400000000"
  defines "counted \<equiv> \<lambda>d. filter (\<lambda>p. user_id p = uid \<and> cutoff \<le> recorded_at p
                          \<and> latitude p \<noteq> None \<and> longitude p \<noteq> None
                          \<and> recorded_at p div 86400000000 = d) (points_tbl st)"
  shows "(999999999 < \<bar>days_back\<bar> \<or> cutoff < datetime_min \<or> datetime_max < cutoff
            \<longrightarrow> get_user_routes st now uid days_back = Inl OverflowError)
       \<and> (\<bar>days_back\<bar> \<le> 999999999 \<and> datetime_min \<le> cutoff \<and> cutoff \<le> datetime_max
            \<longrightarrow> (\<exists>routes. get_user_routes st now uid days_back = Inr routes
                 \<and> set (map route_date routes) = {d. 5 \<le> length (counted d)}
                 \<and> sorted_wrt (>) (map route_date routes)
                 \<and> (\<forall>s \<in> set routes.
                        point_count s = length (counted (route_date s))
                      \<and> start_time s \<in> recorded_at ` set (counted (route_date s))
                      \<and> end_time s \<in> recorded_at ` set (counted (route_date s))
                      \<and> min_lat s \<in> (the \<circ> latitude) ` set (counted (route_date s))
                      \<and> max_lat s \<in> (the \<circ> latitude) ` set (counted (route_date s))
                      \<and> min_lon s \<in> (the \<circ> longitude) ` set (counted (route_date s))
                      \<and> max_lon s \<in> (the \<circ> longitude) ` set (counted (route_date s))
                      \<and> (\<forall>p \<in> set (counted (route_date s)).
                            start_time s \<le> recorded_at p \<and> recorded_at p \<le> end_time s
                          \<and> \<not> sql_lt ((the \<circ> latitude) p) (min_lat s)
                          \<and> \<not> sql_lt (max_lat s) ((the \<circ> latitude) p)
                          \<and> \<not> sql_lt ((the \<circ> longitude) p) (min_lon s)
                          \<and> \<not> sql_lt (max_lon s) ((the \<circ> longitude) p)))))"
proof (intro conjI impI)
  assume "999999999 < \<bar>days_back\<bar> \<or> cutoff < datetime_min \<or> datetime_max < cutoff"
  then show "get_user_routes st now uid days_back = Inl OverflowError"
    by (simp add: get_user_routes_def datetime_minus_days_cases cutoff_def)
next
  assume "\<bar>days_back\<bar> \<le> 999999999 \<and> datetime_min \<le> cutoff \<and> cutoff \<le> datetime_max"
  then have c: "datetime_minus_days now days_back = Inr cutoff"
    by (auto simp: datetime_minus_days_cases cutoff_def)
  have cnt: "counted = date_group st uid cutoff"
    by (rule ext) (simp add: counted_def window_date_group)
  let ?routes = "map (\<lambda>d. summarize d (date_group st uid cutoff d))
              (filter (\<lambda>d. length (date_group st uid cutoff d) \<ge> 5)
                 (rev (sort (remdups (map (sql_date \<circ> recorded_at) (window_rows st uid cutoff))))))"
  have r: "get_user_routes st now uid days_back = Inr ?routes"
    by (simp add: get_user_routes_def c Let_def)
  show "\<exists>routes. get_user_routes st now uid days_back = Inr routes
                 \<and> set (map route_date routes) = {d. 5 \<le> length (counted d)}
                 \<and> sorted_wrt (>) (map route_date routes)
                 \<and> (\<forall>s \<in> set routes.
                        point_count s = length (counted (route_date s))
                      \<and> start_time s \<in> recorded_at ` set (counted (route_date s))
                      \<and> end_time s \<in> recorded_at ` set (counted (route_date s))
                      \<and> min_lat s \<in> (the \<circ> latitude) ` set (counted (route_date s))
                      \<and> max_lat s \<in> (the \<circ> latitude) ` set (counted (route_date s))
                      \<and> min_lon s \<in> (the \<circ> longitude) ` set (counted (route_date s))
                      \<and> max_lon s \<in> (the \<circ> longitude) ` set (counted (route_date s))
                      \<and> (\<forall>p \<in> set (counted (route_date s)).
                            start_time s \<le> recorded_at p \<and> recorded_at p \<le> end_time s
                          \<and> \<not> sql_lt ((the \<circ> latitude) p) (min_lat s)
                          \<and> \<not> sql_lt (max_lat s) ((the \<circ> latitude) p)
                          \<and> \<not> sql_lt ((the \<circ> longitude) p) (min_lon s)
                          \<and> \<not> sql_lt (max_lon s) ((the \<circ> longitude) p)))"
    unfolding cnt
    by (rule exI[of _ ?routes], intro conjI r listed_routes)
qed

theorem get_user_routes_listing_witness:
  "\<bar>1 :: int\<bar> \<le> 999999999 \<and> datetime_min \<le> 172800001001 - 1 * 86400000000
   \<and> 172800001001 - 1 * 86400000000 \<le> datetime_max
   \<and> map_sum id (map (\<lambda>s. (route_date s, point_count s)))
        (get_user_routes week_store 172800001001 1 1) = Inr [(2, 5)]
   \<and> length (filter (\<lambda>p. user_id p = 1 \<and> 172800001001 - 1 * 86400000000 \<le> recorded_at p
                         \<and> latitude p \<noteq> None \<and> longitude p \<noteq> None
                         \<and> recorded_at p div 86400000000 = 1) (points_tbl week_store)) = 4
   \<and> {d. 5 \<le> length (filter (\<lambda>p. user_id p = 1
                         \<and> 172800001001 - 1 * 86400000000 \<le> recorded_at p
                         \<and> latitude p \<noteq> None \<and> longitude p \<noteq> None
                         \<and> recorded_at p div 86400000000 = d) (points_tbl week_store))} = {2}
   \<and> 172800001001 - 1000000 * 86400000000 < datetime_min
   \<and> get_user_routes week_store 172800001001 1 1000000 = Inl OverflowError"
proof -
  have range: "\<bar>1 :: int\<bar> \<le> 999999999 \<and> datetime_min \<le> 172800001001 - 1 * 86400000000
      \<and> 172800001001 - 1 * 86400000000 \<le> datetime_max"
    by (simp add: datetime_min_def datetime_max_def)
  have low: "172800001001 - 1000000 * 86400000000 < datetime_min"
    by (simp add: datetime_min_def)
  from get_user_routes_listing[where st = week_store and now = 172800001001 and uid = 1
        and days_back = 1000000] low
  have over: "get_user_routes week_store 172800001001 1 1000000 = Inl OverflowError"
    by blast
  have four: "length (filter (\<lambda>p. user_id p = 1 \<and> 172800001001 - 1 * 86400000000 \<le> recorded_at p
                         \<and> latitude p \<noteq> None \<and> longitude p \<noteq> None
                         \<and> recorded_at p div 86400000000 = 1) (points_tbl week_store)) = 4"
  proof -
    have e: "172800001001 - 1 * 86400000000 = (86400001001 :: int)" by simp
    show ?thesis
      unfolding e window_date_group[symmetric] week_day_groups by simp
  qed
  have listed: "map_sum id (map (\<lambda>s. (route_date s, point_count s)))
        (get_user_routes week_store 172800001001 1 1) = Inr [(2, 5)]"
    by (simp add: week_day_routes summarize_def week_day_groups)
  from get_user_routes_listing[where st = week_store and now = 172800001001 and uid = 1
        and days_back = 1] range
  obtain routes where r: "get_user_routes week_store 172800001001 1 1 = Inr routes"
    and s: "set (map route_date routes)
         = {d. 5 \<le> length (filter (\<lambda>p. user_id p = 1
                         \<and> 172800001001 - 1 * 86400000000 \<le> recorded_at p
                         \<and> latitude p \<noteq> None \<and> longitude p \<noteq> None
                         \<and> recorded_at p div 86400000000 = d) (points_tbl week_store))}"
    by blast
  from r have "routes = [summarize 2 (date_group week_store 1 86400001001 2)]"
    unfolding week_day_routes by simp
  then have "set (map route_date routes) = {2}" by (simp add: summarize_def)
  then have dates: "{d. 5 \<le> length (filter (\<lambda>p. user_id p = 1
                         \<and> 172800001001 - 1 * 86400000000 \<le> recorded_at p
                         \<and> latitude p \<noteq> None \<and> longitude p \<noteq> None
                         \<and> recorded_at p div 86400000000 = d) (points_tbl week_store))} = {2}"
    unfolding s .
  from range low over four listed dates show ?thesis by blast
qed

theorem whole_date_count_counterexample:
  "sql_date 172800001001 = 2
   \<and> datetime_minus_days 172800001001 1 = Inr 86400001001
   \<and> sql_date 86400001001 = 1
   \<and> length (filter (\<lambda>p. user_id p = 1 \<and> latitude p \<noteq> None \<and> longitude p \<noteq> None
                         \<and> sql_date (recorded_at p) = 1) (points_tbl week_store)) = 5
   \<and> map_sum id (map route_date) (get_user_routes week_store 172800001001 1 1) = Inr [2]"
proof -
  have "length (filter (\<lambda>p. user_id p = 1 \<and> latitude p \<noteq> None \<and> longitude p \<noteq> None
                         \<and> sql_date (recorded_at p) = 1) (points_tbl week_store)) = 5"
    unfolding week_day_1_rows by simp
  moreover have "map_sum id (map route_date) (get_user_routes week_store 172800001001 1 1) = Inr [2]"
    by (simp add: week_day_routes summarize_def)
  moreover have "sql_date 172800001001 = 2" "sql_date 86400001001 = 1"
    by (simp_all add: sql_date_def)
  ultimately show ?thesis using week_cutoff by simp
qed

end
